theory Spec2Isabelle
  imports Main "HOL-Library.Word" "HOL-Library.Sublist"
begin

section \<open>Errors and results\<close>

text \<open>
  Every \<^verbatim>\<open>throw\<close> and every rejected promise of the source is a value of \<open>error\<close>;
  a call that may fail returns \<open>error + 'a\<close> with \<open>Inl\<close> the failure.
\<close>

datatype error =
    RangeError              \<comment> \<open>DataView / TypedArray write outside the buffer\<close>
  | NoResponse              \<comment> \<open>\<^verbatim>\<open>new Error("No response from AI")\<close>\<close>
  | SyntaxError             \<comment> \<open>\<^verbatim>\<open>JSON.parse\<close> rejects its argument\<close>
  | SpeechFailed            \<comment> \<open>\<^verbatim>\<open>new Error("Failed to generate speech")\<close>\<close>
  | IllustrationFailed      \<comment> \<open>\<^verbatim>\<open>new Error("Failed to generate illustration")\<close>\<close>
  | InvalidCharacterError   \<comment> \<open>\<^verbatim>\<open>atob\<close> rejects its argument\<close>
  | FileReadFailed          \<comment> \<open>the FileReader of \<^verbatim>\<open>fileToGenerativePart\<close> fails\<close>
  | CallFailed              \<comment> \<open>a remote generation call rejects\<close>
  | TypeError               \<comment> \<open>a property of \<^verbatim>\<open>undefined\<close> or \<^verbatim>\<open>null\<close> is read\<close>

definition thenE :: "error + 'a \<Rightarrow> ('a \<Rightarrow> error + 'b) \<Rightarrow> error + 'b" where
  "thenE m f = (case m of Inl e \<Rightarrow> Inl e | Inr x \<Rightarrow> f x)"

section \<open>The audio encoder (\<^verbatim>\<open>pcmToWav\<close>, services/geminiService.ts)\<close>

type_synonym byte = "8 word"

text \<open>
  An \<^verbatim>\<open>ArrayBuffer\<close> with its \<^verbatim>\<open>DataView\<close> and \<^verbatim>\<open>Uint8Array\<close> views is a list of
  bytes. A write of \<open>bs\<close> at \<open>off\<close> that does not fit throws \<^verbatim>\<open>RangeError\<close>.
\<close>

definition write_at :: "byte list \<Rightarrow> nat \<Rightarrow> byte list \<Rightarrow> error + byte list" where
  "write_at buf off bs =
     (if off + length bs \<le> length buf
      then Inr (take off buf @ bs @ drop (off + length bs) buf)
      else Inl RangeError)"

text \<open>
  The \<open>k\<close> low bytes of an integer, least significant first. \<open>word_of_int\<close> keeps the
  value modulo 256, so byte \<open>i\<close> is \<open>(v div 256 ^ i) mod 256\<close>: this is the conversion
  modulo \<open>2 ^ (8 * k)\<close> that \<^verbatim>\<open>setUint8\<close>, \<^verbatim>\<open>setUint16\<close> and \<^verbatim>\<open>setUint32\<close> apply to
  their argument.
\<close>

definition le_bytes :: "nat \<Rightarrow> int \<Rightarrow> byte list" where
  "le_bytes k v = map (\<lambda>i. word_of_int (v div 256 ^ i)) [0..<k]"

definition setUint8 :: "byte list \<Rightarrow> nat \<Rightarrow> int \<Rightarrow> error + byte list" where
  "setUint8 view off v = write_at view off (le_bytes 1 v)"

text \<open>\<^verbatim>\<open>view.setUint16(off, v, true)\<close> and \<^verbatim>\<open>view.setUint32(off, v, true)\<close>: little-endian.\<close>

definition setUint16 :: "byte list \<Rightarrow> nat \<Rightarrow> int \<Rightarrow> error + byte list" where
  "setUint16 view off v = write_at view off (le_bytes 2 v)"

definition setUint32 :: "byte list \<Rightarrow> nat \<Rightarrow> int \<Rightarrow> error + byte list" where
  "setUint32 view off v = write_at view off (le_bytes 4 v)"

text \<open>
  \<^verbatim>\<open>for (let i = 0; i < string.length; i++) view.setUint8(offset + i, string.charCodeAt(i))\<close>
\<close>

fun writeString :: "byte list \<Rightarrow> nat \<Rightarrow> string \<Rightarrow> error + byte list" where
  "writeString view offset [] = Inr view"
| "writeString view offset (c # cs) =
     thenE (setUint8 view offset (of_char c)) (\<lambda>view'. writeString view' (Suc offset) cs)"

text \<open>\<^verbatim>\<open>wavBytes.set(pcmData, 44)\<close> on the \<^verbatim>\<open>Uint8Array\<close> over the same buffer.\<close>

definition typed_set :: "byte list \<Rightarrow> byte list \<Rightarrow> nat \<Rightarrow> error + byte list" where
  "typed_set target source off = write_at target off source"

text \<open>
  The sample rate is a JavaScript number; the spec takes it to be an integer, so it is an
  \<open>int\<close> here. On integers \<^verbatim>\<open>(sampleRate * numChannels * bitsPerSample) / 8\<close> is exact.
\<close>

definition pcmToWav :: "byte list \<Rightarrow> int \<Rightarrow> error + byte list" where
  "pcmToWav pcmData sampleRate =
     (let numChannels = 1;
          bitsPerSample = 16;
          byteRate = (sampleRate * numChannels * bitsPerSample) div 8;
          blockAlign = (numChannels * bitsPerSample) div 8;
          dataSize = length pcmData;
          buffer = replicate (44 + dataSize) (0 :: byte)
      in
      thenE (writeString buffer 0 ''RIFF'') (\<lambda>view.
      thenE (setUint32 view 4 (36 + int dataSize)) (\<lambda>view.
      thenE (writeString view 8 ''WAVE'') (\<lambda>view.
      thenE (writeString view 12 ''fmt '') (\<lambda>view.
      thenE (setUint32 view 16 16) (\<lambda>view.
      thenE (setUint16 view 20 1) (\<lambda>view.
      thenE (setUint16 view 22 numChannels) (\<lambda>view.
      thenE (setUint32 view 24 sampleRate) (\<lambda>view.
      thenE (setUint32 view 28 byteRate) (\<lambda>view.
      thenE (setUint16 view 32 blockAlign) (\<lambda>view.
      thenE (setUint16 view 34 bitsPerSample) (\<lambda>view.
      thenE (writeString view 36 ''data'') (\<lambda>view.
      thenE (setUint32 view 40 (int dataSize)) (\<lambda>view.
      typed_set view pcmData 44))))))))))))))"

text \<open>Reading a little-endian unsigned field of \<open>k\<close> bytes at \<open>off\<close> back.\<close>

fun le_value :: "byte list \<Rightarrow> nat" where
  "le_value [] = 0"
| "le_value (b # bs) = unat b + 256 * le_value bs"

definition field :: "byte list \<Rightarrow> nat \<Rightarrow> nat \<Rightarrow> byte list" where
  "field buf off k = take k (drop off buf)"

definition ascii :: "string \<Rightarrow> byte list" where
  "ascii s = map of_char s"


section \<open>Data model (types.ts)\<close>

record StoryMeta =
  detected_language :: string
  educational_concept :: string
  context_used :: bool
  character_voice_profile :: string

record Storyboard =
  title :: string
  display_text :: string
  audio_text :: string
  interactive_question :: string
  suggested_questions :: "string list"

record Visuals =
  image_prompt :: string

record StoryResponse =
  meta :: StoryMeta
  storyboard :: Storyboard
  visuals :: Visuals

text \<open>
  The interfaces above are not checked at run time: \<^verbatim>\<open>JSON.parse(jsonStr) as StoryResponse\<close>
  hands on whatever value the text denotes. \<open>js\<close> is a JavaScript value as \<^verbatim>\<open>JSON.parse\<close>
  builds it, and \<^verbatim>\<open>undefined\<close>, the value of a property that is not there. A number is given
  by the text that \<^verbatim>\<open>Number::toString\<close> prints for it, an object by its properties in the
  order they are enumerated, with distinct keys.
\<close>

datatype js =
    JUndefined | JNull | JBool bool | JNumber string | JString string
  | JArray "js list" | JObject "(string \<times> js) list"

text \<open>
  \<^verbatim>\<open>v.k\<close> for a name \<open>k\<close> that no prototype defines and that is not an index, as the names
  read in \<^verbatim>\<open>App\<close> are: a \<^verbatim>\<open>TypeError\<close> on \<^verbatim>\<open>undefined\<close> and \<^verbatim>\<open>null\<close>, the property of an
  object, \<^verbatim>\<open>undefined\<close> where there is none.
\<close>

fun get_prop :: "js \<Rightarrow> string \<Rightarrow> error + js" where
  "get_prop JUndefined k = Inl TypeError"
| "get_prop JNull k = Inl TypeError"
| "get_prop (JObject kvs) k = Inr (case map_of kvs k of None \<Rightarrow> JUndefined | Some v \<Rightarrow> v)"
| "get_prop v k = Inr JUndefined"

text \<open>A value of the interface \<^verbatim>\<open>StoryResponse\<close> as the JavaScript value it is.\<close>

definition meta_js :: "StoryMeta \<Rightarrow> js" where
  "meta_js m =
     JObject
       [(''detected_language'', JString (detected_language m)),
        (''educational_concept'', JString (educational_concept m)),
        (''context_used'', JBool (context_used m)),
        (''character_voice_profile'', JString (character_voice_profile m))]"

definition storyboard_js :: "Storyboard \<Rightarrow> js" where
  "storyboard_js s =
     JObject
       [(''title'', JString (title s)),
        (''display_text'', JString (display_text s)),
        (''audio_text'', JString (audio_text s)),
        (''interactive_question'', JString (interactive_question s)),
        (''suggested_questions'', JArray (map JString (suggested_questions s)))]"

definition visuals_js :: "Visuals \<Rightarrow> js" where
  "visuals_js v = JObject [(''image_prompt'', JString (image_prompt v))]"

definition toJS :: "StoryResponse \<Rightarrow> js" where
  "toJS story =
     JObject
       [(''meta'', meta_js (meta story)),
        (''storyboard'', storyboard_js (storyboard story)),
        (''visuals'', visuals_js (visuals story))]"

text \<open>
  \<^verbatim>\<open>ChildContext\<close> declares both fields as \<^verbatim>\<open>string\<close>. \<^verbatim>\<open>generateStory\<close> reads them with
  \<^verbatim>\<open>||\<close>, which also accepts the value \<^verbatim>\<open>undefined\<close> of a field that was never supplied:
  \<open>None\<close> is that absent value, \<open>Some s\<close> a supplied string.
\<close>

record ChildContext =
  childName :: "string option"
  characterName :: "string option"

datatype AppState = IDLE | ANALYZING | GENERATING_MEDIA | PLAYING | ERROR

text \<open>A browser \<^verbatim>\<open>File\<close>: its declared MIME type and its bytes.\<close>

record File =
  file_type :: string
  file_bytes :: "byte list"

section \<open>The remote model and the browser\<close>

text \<open>One part of a multimodal request: \<^verbatim>\<open>{inlineData: {mimeType, data}}\<close> or \<^verbatim>\<open>{text}\<close>.
  \<^verbatim>\<open>data\<close> is \<^verbatim>\<open>undefined\<close> (\<open>None\<close>) when the data URL of the file has no comma.\<close>

datatype part = InlineData string "string option" | TextPart string

text \<open>A part of the illustration response: with \<^verbatim>\<open>inlineData\<close> (its \<^verbatim>\<open>data\<close>, possibly
  \<^verbatim>\<open>undefined\<close>) or without.\<close>

datatype response_part = InlinePart "string option" | OtherPart

text \<open>
  What surrounds the code during one turn: the three remote calls (each may reject,
  \<open>Inl\<close>), the \<^verbatim>\<open>FileReader\<close> (\<open>None\<close> when it fails), and the builtins \<^verbatim>\<open>JSON.parse\<close>
  (\<open>None\<close> when it throws), \<^verbatim>\<open>atob\<close> (\<open>None\<close> when it throws) and \<^verbatim>\<open>URL.createObjectURL\<close> on
  the \<^verbatim>\<open>audio/wav\<close> blob. The speech and the image model receive the value they are
  called with, whatever it is.
\<close>

record world =
  readAsDataURL :: "File \<Rightarrow> string option"
  textModel :: "part list \<Rightarrow> error + string option"
  speechModel :: "js \<Rightarrow> error + string option"
  imageModel :: "js \<Rightarrow> error + response_part list"
  JSON_parse :: "string \<Rightarrow> js option"
  atob :: "string \<Rightarrow> string option"
  createObjectURL :: "byte list \<Rightarrow> string"

section \<open>The request builder (\<^verbatim>\<open>generateStory\<close>, first half)\<close>

text \<open>\<^verbatim>\<open>a || b\<close> on a string that may be \<^verbatim>\<open>undefined\<close>: the empty string is falsy too.\<close>

definition js_or :: "string option \<Rightarrow> string \<Rightarrow> string" where
  "js_or a b = (case a of None \<Rightarrow> b | Some s \<Rightarrow> if s = [] then b else s)"

definition hex_digit :: "nat \<Rightarrow> char" where
  "hex_digit d = (if d < 10 then char_of (48 + d) else char_of (87 + d))"

text \<open>\<^verbatim>\<open>QuoteJSONString\<close> of ECMA-262 on code units below 256.\<close>

definition quote_char :: "char \<Rightarrow> string" where
  "quote_char c =
     (if c = CHR 0x22 then [CHR 0x5C, CHR 0x22]
      else if c = CHR 0x5C then [CHR 0x5C, CHR 0x5C]
      else if c = CHR 0x08 then [CHR 0x5C, CHR ''b'']
      else if c = CHR 0x0C then [CHR 0x5C, CHR ''f'']
      else if c = CHR 0x0A then [CHR 0x5C, CHR ''n'']
      else if c = CHR 0x0D then [CHR 0x5C, CHR ''r'']
      else if c = CHR 0x09 then [CHR 0x5C, CHR ''t'']
      else if (of_char c :: nat) < 32
        then [CHR 0x5C, CHR ''u'', CHR ''0'', CHR ''0'',
              hex_digit (of_char c div 16), hex_digit (of_char c mod 16)]
      else [c])"

definition quoteJSONString :: "string \<Rightarrow> string" where
  "quoteJSONString s = [CHR 0x22] @ concat (map quote_char s) @ [CHR 0x22]"

fun join :: "string \<Rightarrow> string list \<Rightarrow> string" where
  "join sep [] = []"
| "join sep [x] = x"
| "join sep (x # y # ys) = x @ sep @ join sep (y # ys)"

text \<open>A template literal prints \<^verbatim>\<open>undefined\<close> for an absent value.\<close>

definition template :: "string option \<Rightarrow> string" where
  "template v = (case v of None \<Rightarrow> ''undefined'' | Some s \<Rightarrow> s)"

text \<open>
  \<^verbatim>\<open>JSON.stringify\<close>: no text (\<open>None\<close>) for \<^verbatim>\<open>undefined\<close>; inside an array \<^verbatim>\<open>undefined\<close> is
  printed as \<^verbatim>\<open>null\<close>, and a property whose value is \<^verbatim>\<open>undefined\<close> is left out.
\<close>

definition present :: "'a option list \<Rightarrow> 'a list" where
  "present xs = concat (map (\<lambda>x. case x of None \<Rightarrow> [] | Some y \<Rightarrow> [y]) xs)"

fun JSON_stringify :: "js \<Rightarrow> string option" where
  "JSON_stringify JUndefined = None"
| "JSON_stringify JNull = Some ''null''"
| "JSON_stringify (JBool b) = Some (if b then ''true'' else ''false'')"
| "JSON_stringify (JNumber n) = Some n"
| "JSON_stringify (JString s) = Some (quoteJSONString s)"
| "JSON_stringify (JArray xs) =
     Some (''['' @ join '','' (map (\<lambda>x. case JSON_stringify x of
                                          None \<Rightarrow> ''null''
                                        | Some s \<Rightarrow> s) xs) @ '']'')"
| "JSON_stringify (JObject kvs) =
     Some (''{'' @ join '','' (present (map (\<lambda>kv. case JSON_stringify (snd kv) of
                                                   None \<Rightarrow> None
                                                 | Some s \<Rightarrow>
                                                     Some (quoteJSONString (fst kv) @ '':'' @ s))
                                           kvs))
           @ ''}'')"

text \<open>The object literal passed to \<^verbatim>\<open>JSON.stringify\<close>; the topics are the values the
  state holds.\<close>

definition contextObject :: "ChildContext \<Rightarrow> js list \<Rightarrow> js" where
  "contextObject childContext previousTopics =
     JObject
       [(''child_name'', JString (js_or (childName childContext) ''Friend'')),
        (''character_name'', JString (js_or (characterName childContext) [])),
        (''prev_topics'', JArray previousTopics)]"

definition contextPrompt :: "ChildContext \<Rightarrow> js list \<Rightarrow> string option" where
  "contextPrompt childContext previousTopics =
     JSON_stringify (contextObject childContext previousTopics)"

definition textPrompt :: "File option \<Rightarrow> string \<Rightarrow> ChildContext \<Rightarrow> js list \<Rightarrow> string" where
  "textPrompt imageFile question childContext previousTopics =
     ''User Question: '' @ question @ [CHR 0x0A] @ ''Context: '' @
     template (contextPrompt childContext previousTopics) @
     (if imageFile = None
      then [CHR 0x0A] @ ''(NOTE: The user did not provide a drawing. Please invent a creative, friendly character suitable for the story's theme and describe them in the visuals.image_prompt.)''
      else [])"

text \<open>\<^verbatim>\<open>base64String.split(',')[1]\<close>: the text between the first and the second comma,
  \<^verbatim>\<open>undefined\<close> when there is no comma.\<close>

fun split_on :: "char \<Rightarrow> string \<Rightarrow> string list" where
  "split_on sep [] = [[]]"
| "split_on sep (c # cs) =
     (if c = sep then [] # split_on sep cs
      else (case split_on sep cs of [] \<Rightarrow> [[c]] | x # xs \<Rightarrow> (c # x) # xs))"

definition second :: "'a list \<Rightarrow> 'a option" where
  "second xs = (case xs of _ # y # _ \<Rightarrow> Some y | _ \<Rightarrow> None)"

text \<open>\<^verbatim>\<open>fileToGenerativePart\<close>: rejects when the reader fails.\<close>

definition fileToGenerativePart :: "world \<Rightarrow> File \<Rightarrow> error + string option" where
  "fileToGenerativePart w file =
     (case readAsDataURL w file of
        None \<Rightarrow> Inl FileReadFailed
      | Some base64String \<Rightarrow> Inr (second (split_on CHR '','' base64String)))"

text \<open>The \<^verbatim>\<open>parts\<close> array handed to the text model: the image part, when there is an
  image, then the text part.\<close>

definition storyRequest ::
  "world \<Rightarrow> File option \<Rightarrow> string \<Rightarrow> ChildContext \<Rightarrow> js list \<Rightarrow> error + part list" where
  "storyRequest w imageFile question childContext previousTopics =
     thenE (case imageFile of
              None \<Rightarrow> Inr []
            | Some file \<Rightarrow>
                thenE (fileToGenerativePart w file)
                  (\<lambda>imageBase64. Inr [InlineData (file_type file) imageBase64]))
       (\<lambda>parts. Inr (parts @ [TextPart (textPrompt imageFile question childContext previousTopics)]))"


section \<open>The response handler (\<^verbatim>\<open>generateStory\<close>, second half)\<close>

text \<open>
  Strings are lists of code units below 256. The two alternatives of the regular expression
  \<^verbatim>\<open>/```json\n|\n```/g\<close>:
\<close>

definition fence_open :: string where
  "fence_open = ''```json'' @ [CHR 0x0A]"

definition fence_close :: string where
  "fence_close = [CHR 0x0A] @ ''```''"

text \<open>
  \<^verbatim>\<open>text.replace(/```json\n|\n```/g, "")\<close>: scanning from the left, a match at the current
  position is dropped and the scan resumes behind it; otherwise the code unit is kept.
\<close>

fun stripFences :: "string \<Rightarrow> string" where
  "stripFences [] = []"
| "stripFences (c # cs) =
     (if prefix fence_open (c # cs) then stripFences (drop (length fence_open - 1) cs)
      else if prefix fence_close (c # cs) then stripFences (drop (length fence_close - 1) cs)
      else c # stripFences cs)"

text \<open>\<^verbatim>\<open>String.prototype.trim\<close>: white space and line terminators below 256.\<close>

definition js_space :: "char \<Rightarrow> bool" where
  "js_space c \<longleftrightarrow> c \<in> {CHR 0x09, CHR 0x0A, CHR 0x0B, CHR 0x0C, CHR 0x0D, CHR 0x20, CHR 0xA0}"

definition trim :: "string \<Rightarrow> string" where
  "trim s = rev (dropWhile js_space (rev (dropWhile js_space s)))"

text \<open>From \<^verbatim>\<open>const text = response.text\<close> to the \<^verbatim>\<open>return\<close>. The cast checks nothing: the
  result is the parsed value.\<close>

definition storyFromResponse :: "world \<Rightarrow> string option \<Rightarrow> error + js" where
  "storyFromResponse w text =
     (case text of
        None \<Rightarrow> Inl NoResponse
      | Some t \<Rightarrow>
          if t = [] then Inl NoResponse
          else (let jsonStr = trim (stripFences t)
                in case JSON_parse w jsonStr of
                     None \<Rightarrow> Inl SyntaxError
                   | Some story \<Rightarrow> Inr story))"

definition generateStory ::
  "world \<Rightarrow> File option \<Rightarrow> string \<Rightarrow> ChildContext \<Rightarrow> js list \<Rightarrow> error + js" where
  "generateStory w imageFile question childContext previousTopics =
     thenE (storyRequest w imageFile question childContext previousTopics)
       (\<lambda>parts. thenE (textModel w parts) (storyFromResponse w))"

section \<open>\<^verbatim>\<open>generateSpeech\<close> and \<^verbatim>\<open>generateIllustration\<close>\<close>

text \<open>
  \<open>speechModel\<close> gives \<^verbatim>\<open>response.candidates?.[0]?.content?.parts?.[0]?.inlineData?.data\<close>
  (\<open>None\<close> for \<^verbatim>\<open>undefined\<close>); the loop copies the code units of \<^verbatim>\<open>atob\<close>'s result.
\<close>

definition generateSpeech :: "world \<Rightarrow> js \<Rightarrow> error + string" where
  "generateSpeech w text =
     thenE (speechModel w text)
       (\<lambda>base64Audio.
          case base64Audio of
            None \<Rightarrow> Inl SpeechFailed
          | Some b \<Rightarrow>
              if b = [] then Inl SpeechFailed
              else (case atob w b of
                      None \<Rightarrow> Inl InvalidCharacterError
                    | Some binaryString \<Rightarrow>
                        (let pcmBytes = map of_char binaryString
                         in thenE (pcmToWav pcmBytes 24000)
                              (\<lambda>wavBuffer. Inr (createObjectURL w wavBuffer)))))"

fun firstInlineData :: "response_part list \<Rightarrow> error + string" where
  "firstInlineData [] = Inl IllustrationFailed"
| "firstInlineData (InlinePart d # ps) = Inr (''data:image/png;base64,'' @ template d)"
| "firstInlineData (OtherPart # ps) = firstInlineData ps"

text \<open>\<open>imageModel\<close> gives \<^verbatim>\<open>response.candidates?.[0]?.content?.parts || []\<close>.\<close>

definition generateIllustration :: "world \<Rightarrow> js \<Rightarrow> error + string" where
  "generateIllustration w prompt = thenE (imageModel w prompt) firstInlineData"

section \<open>The orchestrator (\<^verbatim>\<open>App\<close>)\<close>

text \<open>A request sent to the remote model.\<close>

datatype request = TextRequest "part list" | SpeechRequest js | ImageRequest js

text \<open>
  The component's state variables. \<^verbatim>\<open>storyData\<close> and \<^verbatim>\<open>previousTopics\<close> hold the values they
  were given, of whatever shape. Two fields are not state variables: \<open>issued\<close> records the
  requests sent so far, oldest first, so that what a turn sends can be stated, and
  \<open>renderFailed\<close> records that an updater threw while React rendered. React then takes the
  component off the page, and the other fields say what the setters were last called
  with, not what is shown.
\<close>

record app =
  appState :: AppState
  storyData :: "js option"
  audioUrl :: "string option"
  imageUrl :: "string option"
  errorMsg :: "string option"
  previousTopics :: "js list"
  currentFile :: "File option"
  currentContext :: ChildContext
  issued :: "request list"
  renderFailed :: bool

definition initial_app :: app where
  "initial_app =
     \<lparr>appState = IDLE, storyData = None, audioUrl = None, imageUrl = None, errorMsg = None,
      previousTopics = [], currentFile = None,
      currentContext = \<lparr>childName = Some [], characterName = Some []\<rparr>, issued = [],
      renderFailed = False\<rparr>"

text \<open>\<^verbatim>\<open>newHistory.slice(-3)\<close>: from index \<open>max (length - 3) 0\<close> to the end.\<close>

definition slice_last :: "nat \<Rightarrow> 'a list \<Rightarrow> 'a list" where
  "slice_last k xs = drop (length xs - k) xs"

text \<open>The three property chains that \<^verbatim>\<open>processStoryGeneration\<close> reads from the story.\<close>

definition read_educational_concept :: "js \<Rightarrow> error + js" where
  "read_educational_concept story =
     thenE (get_prop story ''meta'') (\<lambda>m. get_prop m ''educational_concept'')"

definition read_audio_text :: "js \<Rightarrow> error + js" where
  "read_audio_text story =
     thenE (get_prop story ''storyboard'') (\<lambda>s. get_prop s ''audio_text'')"

definition read_image_prompt :: "js \<Rightarrow> error + js" where
  "read_image_prompt story =
     thenE (get_prop story ''visuals'') (\<lambda>v. get_prop v ''image_prompt'')"

text \<open>
  The array literal handed to \<^verbatim>\<open>Promise.allSettled\<close> is evaluated from the left:
  \<^verbatim>\<open>story.storyboard.audio_text\<close> is read and \<^verbatim>\<open>generateSpeech\<close> called, then
  \<^verbatim>\<open>story.visuals.image_prompt\<close> is read and \<^verbatim>\<open>generateIllustration\<close> called. A read that throws
  ends the evaluation. \<open>media_arguments\<close> are the two values read, \<open>media_requests\<close> the
  requests sent on the way.
\<close>

definition media_arguments :: "js \<Rightarrow> error + js \<times> js" where
  "media_arguments story =
     thenE (read_audio_text story) (\<lambda>text.
     thenE (read_image_prompt story) (\<lambda>prompt. Inr (text, prompt)))"

definition media_requests :: "js \<Rightarrow> request list" where
  "media_requests story =
     (case read_audio_text story of
        Inl e \<Rightarrow> []
      | Inr text \<Rightarrow>
          SpeechRequest text #
          (case read_image_prompt story of
             Inl e \<Rightarrow> []
           | Inr prompt \<Rightarrow> [ImageRequest prompt]))"

text \<open>
  \<^verbatim>\<open>processStoryGeneration\<close> is an async function: it runs up to its first \<^verbatim>\<open>await\<close>, and
  each settled promise resumes it. Between two \<^verbatim>\<open>await\<close>s nothing else runs, so the turn is
  three atomic steps. The first: the four setters, and \<^verbatim>\<open>generateStory\<close> is called, which
  builds the request and, unless reading the image fails, sends it. The request is entered
  in \<open>issued\<close> here.
\<close>

definition turn_begin :: "world \<Rightarrow> app \<Rightarrow> File option \<Rightarrow> string \<Rightarrow> ChildContext \<Rightarrow> app" where
  "turn_begin w st file question context =
     st\<lparr>appState := ANALYZING, errorMsg := None, audioUrl := None, imageUrl := None,
        issued := issued st @
          (case storyRequest w file question context (previousTopics st) of
             Inl _ \<Rightarrow> []
           | Inr parts \<Rightarrow> [TextRequest parts])\<rparr>"

text \<open>The second, when \<^verbatim>\<open>generateStory\<close> rejects: the outer \<^verbatim>\<open>catch\<close>.\<close>

definition text_rejected :: "app \<Rightarrow> app" where
  "text_rejected st =
     st\<lparr>errorMsg := Some ''Oops! The magic wand sputtered. Please try again!'',
        appState := ERROR\<rparr>"

text \<open>
  The second, when it fulfils with \<open>story\<close>: from \<^verbatim>\<open>setStoryData(story)\<close> to the \<^verbatim>\<open>await\<close> in the
  inner \<^verbatim>\<open>try\<close>. The updater of \<^verbatim>\<open>setPreviousTopics\<close> is not run by the call but by React when
  it renders, on the state of that moment; if reading \<^verbatim>\<open>story.meta.educational_concept\<close>
  throws there, no \<^verbatim>\<open>catch\<close> of this code is around it. Then the media calls are made. If
  reading one of their arguments throws, the inner \<^verbatim>\<open>catch\<close> takes over and
  \<^verbatim>\<open>setAppState('PLAYING')\<close> follows at once: the turn is over, and a speech call already made
  is left to itself.
\<close>

definition text_fulfilled :: "app \<Rightarrow> js \<Rightarrow> app" where
  "text_fulfilled st story =
     (let st1 = st\<lparr>storyData := Some story\<rparr>;
          st2 = (case read_educational_concept story of
                   Inl e \<Rightarrow> st1\<lparr>renderFailed := True\<rparr>
                 | Inr concept \<Rightarrow>
                     st1\<lparr>previousTopics :=
                           (let newHistory = previousTopics st1 @ [concept]
                            in slice_last 3 newHistory)\<rparr>);
          st3 = st2\<lparr>appState := GENERATING_MEDIA,
                    issued := issued st2 @ media_requests story\<rparr>
      in case media_arguments story of
           Inl mediaError \<Rightarrow> st3\<lparr>appState := PLAYING\<rparr>
         | Inr _ \<Rightarrow> st3)"

text \<open>
  The third, when \<^verbatim>\<open>Promise.allSettled\<close> fulfils with the two outcomes. It never rejects.
\<close>

definition media_settled :: "app \<Rightarrow> error + string \<Rightarrow> error + string \<Rightarrow> app" where
  "media_settled st audioResult imageResult =
     (let st1 = (case audioResult of Inr v \<Rightarrow> st\<lparr>audioUrl := Some v\<rparr> | Inl reason \<Rightarrow> st);
          st2 = (case imageResult of Inr v \<Rightarrow> st1\<lparr>imageUrl := Some v\<rparr> | Inl reason \<Rightarrow> st1)
      in st2\<lparr>appState := PLAYING\<rparr>)"

text \<open>A whole turn with nothing in between. \<^verbatim>\<open>previousTopics\<close> in the call of
  \<^verbatim>\<open>generateStory\<close> is the value of the render the handler was created in. There is a
  third step only if both media calls were made.\<close>

definition processStoryGeneration ::
  "world \<Rightarrow> app \<Rightarrow> File option \<Rightarrow> string \<Rightarrow> ChildContext \<Rightarrow> app" where
  "processStoryGeneration w st file question context =
     (let st1 = turn_begin w st file question context
      in case generateStory w file question context (previousTopics st) of
           Inl err \<Rightarrow> text_rejected st1
         | Inr story \<Rightarrow>
             (let st2 = text_fulfilled st1 story
              in case media_arguments story of
                   Inl mediaError \<Rightarrow> st2
                 | Inr (text, prompt) \<Rightarrow>
                     media_settled st2 (generateSpeech w text) (generateIllustration w prompt)))"

definition handleStartAdventure ::
  "world \<Rightarrow> app \<Rightarrow> File option \<Rightarrow> string \<Rightarrow> ChildContext \<Rightarrow> app" where
  "handleStartAdventure w st file question context =
     processStoryGeneration w (st\<lparr>currentFile := file, currentContext := context\<rparr>)
       file question context"

definition handleSuggestedQuestionClick :: "world \<Rightarrow> app \<Rightarrow> string \<Rightarrow> app" where
  "handleSuggestedQuestionClick w st question =
     processStoryGeneration w st (currentFile st) question (currentContext st)"

definition handleReset :: "app \<Rightarrow> app" where
  "handleReset st =
     st\<lparr>appState := IDLE, storyData := None, audioUrl := None, imageUrl := None,
        errorMsg := None, previousTopics := [], currentFile := None,
        currentContext := \<lparr>childName = Some [], characterName = Some []\<rparr>\<rparr>"


section \<open>JSON texts\<close>

text \<open>
  What \<^verbatim>\<open>JSON.parse\<close> accepts is the grammar of ECMA-404. A text is read in two passes:
  a scanner cuts it into tokens, and a stack automaton checks that the tokens form one
  value. Only the shape of the text matters here, so tokens carry no content.
\<close>

datatype token =
  TLBrace | TRBrace | TLBracket | TRBracket | TColon | TComma | TString | TNumber | TLiteral

datatype lex_state =
    LTop                \<comment> \<open>between tokens\<close>
  | LStr                \<comment> \<open>inside a string\<close>
  | LEsc                \<comment> \<open>behind a backslash\<close>
  | LHex nat            \<comment> \<open>behind \<^verbatim>\<open>\u\<close>, that many hexadecimal digits still to come\<close>
  | LMinus | LZero | LInt | LDot | LFrac | LExp | LExpSign | LExpDigits
  | LWord string        \<comment> \<open>inside \<^verbatim>\<open>true\<close>, \<^verbatim>\<open>false\<close> or \<^verbatim>\<open>null\<close>: the letters still to come\<close>

definition json_ws :: "char \<Rightarrow> bool" where
  "json_ws c \<longleftrightarrow> c \<in> {CHR 0x20, CHR 0x09, CHR 0x0A, CHR 0x0D}"

definition is_digit :: "char \<Rightarrow> bool" where
  "is_digit c \<longleftrightarrow> (48 :: nat) \<le> of_char c \<and> (of_char c :: nat) \<le> 57"

definition is_hex :: "char \<Rightarrow> bool" where
  "is_hex c \<longleftrightarrow> is_digit c
     \<or> ((65 :: nat) \<le> of_char c \<and> (of_char c :: nat) \<le> 70)
     \<or> ((97 :: nat) \<le> of_char c \<and> (of_char c :: nat) \<le> 102)"

definition top_step :: "char \<Rightarrow> (token list \<times> lex_state) option" where
  "top_step c =
     (if json_ws c then Some ([], LTop)
      else if c = CHR ''{'' then Some ([TLBrace], LTop)
      else if c = CHR ''}'' then Some ([TRBrace], LTop)
      else if c = CHR ''['' then Some ([TLBracket], LTop)
      else if c = CHR '']'' then Some ([TRBracket], LTop)
      else if c = CHR '':'' then Some ([TColon], LTop)
      else if c = CHR '','' then Some ([TComma], LTop)
      else if c = CHR 0x22 then Some ([], LStr)
      else if c = CHR ''-'' then Some ([], LMinus)
      else if c = CHR ''0'' then Some ([], LZero)
      else if is_digit c then Some ([], LInt)
      else if c = CHR ''t'' then Some ([], LWord ''rue'')
      else if c = CHR ''f'' then Some ([], LWord ''alse'')
      else if c = CHR ''n'' then Some ([], LWord ''ull'')
      else None)"

text \<open>A number ends at the first code unit that cannot continue it; that code unit is
  then read between tokens.\<close>

definition number_ends :: "char \<Rightarrow> (token list \<times> lex_state) option" where
  "number_ends c = map_option (\<lambda>(ts, st). (TNumber # ts, st)) (top_step c)"

definition is_exp :: "char \<Rightarrow> bool" where
  "is_exp c \<longleftrightarrow> c = CHR ''e'' \<or> c = CHR ''E''"

fun lex_step :: "lex_state \<Rightarrow> char \<Rightarrow> (token list \<times> lex_state) option" where
  "lex_step LTop c = top_step c"
| "lex_step LStr c =
     (if c = CHR 0x22 then Some ([TString], LTop)
      else if c = CHR 0x5C then Some ([], LEsc)
      else if (of_char c :: nat) < 32 then None
      else Some ([], LStr))"
| "lex_step LEsc c =
     (if c \<in> {CHR 0x22, CHR 0x5C, CHR ''/'', CHR ''b'', CHR ''f'', CHR ''n'', CHR ''r'', CHR ''t''}
      then Some ([], LStr)
      else if c = CHR ''u'' then Some ([], LHex 4)
      else None)"
| "lex_step (LHex n) c =
     (if is_hex c then Some ([], if n \<le> 1 then LStr else LHex (n - 1)) else None)"
| "lex_step LMinus c =
     (if c = CHR ''0'' then Some ([], LZero)
      else if is_digit c then Some ([], LInt)
      else None)"
| "lex_step LZero c =
     (if c = CHR ''.'' then Some ([], LDot)
      else if is_exp c then Some ([], LExp)
      else number_ends c)"
| "lex_step LInt c =
     (if is_digit c then Some ([], LInt)
      else if c = CHR ''.'' then Some ([], LDot)
      else if is_exp c then Some ([], LExp)
      else number_ends c)"
| "lex_step LDot c = (if is_digit c then Some ([], LFrac) else None)"
| "lex_step LFrac c =
     (if is_digit c then Some ([], LFrac)
      else if is_exp c then Some ([], LExp)
      else number_ends c)"
| "lex_step LExp c =
     (if c = CHR ''+'' \<or> c = CHR ''-'' then Some ([], LExpSign)
      else if is_digit c then Some ([], LExpDigits)
      else None)"
| "lex_step LExpSign c = (if is_digit c then Some ([], LExpDigits) else None)"
| "lex_step LExpDigits c = (if is_digit c then Some ([], LExpDigits) else number_ends c)"
| "lex_step (LWord []) c = None"
| "lex_step (LWord (x # xs)) c =
     (if c = x then (if xs = [] then Some ([TLiteral], LTop) else Some ([], LWord xs))
      else None)"

fun lex_finish :: "lex_state \<Rightarrow> token list option" where
  "lex_finish LTop = Some []"
| "lex_finish LZero = Some [TNumber]"
| "lex_finish LInt = Some [TNumber]"
| "lex_finish LFrac = Some [TNumber]"
| "lex_finish LExpDigits = Some [TNumber]"
| "lex_finish _ = None"

fun scan :: "lex_state \<Rightarrow> string \<Rightarrow> token list option" where
  "scan st [] = lex_finish st"
| "scan st (c # cs) =
     (case lex_step st c of
        None \<Rightarrow> None
      | Some (ts, st') \<Rightarrow> map_option ((@) ts) (scan st' cs))"

datatype frame = InArray | InObject

datatype expect =
    ExpValue            \<comment> \<open>a value\<close>
  | ExpValueOrClose     \<comment> \<open>behind \<^verbatim>\<open>[\<close>: a value or \<^verbatim>\<open>]\<close>\<close>
  | ExpKeyOrClose       \<comment> \<open>behind \<^verbatim>\<open>{\<close>: a key or \<^verbatim>\<open>}\<close>\<close>
  | ExpKey              \<comment> \<open>behind a comma in an object\<close>
  | ExpColon
  | ExpCommaOrClose     \<comment> \<open>behind a value inside an array or object\<close>
  | ExpEnd              \<comment> \<open>behind the outermost value\<close>

definition after_value :: "frame list \<Rightarrow> (frame list \<times> expect) option" where
  "after_value stk = Some (stk, if stk = [] then ExpEnd else ExpCommaOrClose)"

definition value_start :: "frame list \<Rightarrow> token \<Rightarrow> (frame list \<times> expect) option" where
  "value_start stk t =
     (if t \<in> {TString, TNumber, TLiteral} then after_value stk
      else if t = TLBracket then Some (InArray # stk, ExpValueOrClose)
      else if t = TLBrace then Some (InObject # stk, ExpKeyOrClose)
      else None)"

definition closes :: "frame \<Rightarrow> frame list \<Rightarrow> (frame list \<times> expect) option" where
  "closes f stk = (case stk of [] \<Rightarrow> None | g # rest \<Rightarrow> if g = f then after_value rest else None)"

fun gram_step :: "frame list \<Rightarrow> expect \<Rightarrow> token \<Rightarrow> (frame list \<times> expect) option" where
  "gram_step stk ExpValue t = value_start stk t"
| "gram_step stk ExpValueOrClose t =
     (if t = TRBracket then closes InArray stk else value_start stk t)"
| "gram_step stk ExpKeyOrClose t =
     (if t = TRBrace then closes InObject stk
      else if t = TString then Some (stk, ExpColon)
      else None)"
| "gram_step stk ExpKey t = (if t = TString then Some (stk, ExpColon) else None)"
| "gram_step stk ExpColon t = (if t = TColon then Some (stk, ExpValue) else None)"
| "gram_step stk ExpCommaOrClose t =
     (if t = TComma
        then (case stk of
                [] \<Rightarrow> None
              | InArray # _ \<Rightarrow> Some (stk, ExpValue)
              | InObject # _ \<Rightarrow> Some (stk, ExpKey))
      else if t = TRBracket then closes InArray stk
      else if t = TRBrace then closes InObject stk
      else None)"
| "gram_step stk ExpEnd t = None"

fun accepts :: "frame list \<Rightarrow> expect \<Rightarrow> token list \<Rightarrow> bool" where
  "accepts stk e [] = (e = ExpEnd)"
| "accepts stk e (t # ts) =
     (case gram_step stk e t of
        None \<Rightarrow> False
      | Some (stk', e') \<Rightarrow> accepts stk' e' ts)"

definition json_text :: "string \<Rightarrow> bool" where
  "json_text s = (case scan LTop s of None \<Rightarrow> False | Some ts \<Rightarrow> accepts [] ExpValue ts)"


section \<open>Sessions\<close>

text \<open>A turn the user starts: a submission with its inputs, or a suggested question.
  Each carries the surroundings it runs in.\<close>

datatype turn = Start world "File option" string ChildContext | FollowUp world string


text \<open>What the text call of a turn started in \<open>st\<close> returns.\<close>

fun turn_story :: "app \<Rightarrow> turn \<Rightarrow> error + js" where
  "turn_story st (Start w file question context) =
     generateStory w file question context (previousTopics st)"
| "turn_story st (FollowUp w question) =
     generateStory w (currentFile st) question (currentContext st) (previousTopics st)"






section \<open>Auxiliary notions\<close>

text \<open>The 44 bytes in front of the samples, for \<open>n\<close> sample bytes at rate \<open>r\<close>.\<close>

definition wav_header :: "nat \<Rightarrow> int \<Rightarrow> byte list" where
  "wav_header n r =
     ascii ''RIFF'' @ le_bytes 4 (36 + int n) @ ascii ''WAVE'' @
     ascii ''fmt '' @ le_bytes 4 16 @ le_bytes 2 1 @ le_bytes 2 1 @
     le_bytes 4 r @ le_bytes 4 (2 * r) @ le_bytes 2 2 @ le_bytes 2 16 @
     ascii ''data'' @ le_bytes 4 (int n)"

text \<open>The unsigned little-endian number in \<open>k\<close> bytes at \<open>off\<close> of an encoder result.\<close>

definition read_field :: "error + byte list \<Rightarrow> nat \<Rightarrow> nat \<Rightarrow> error + nat" where
  "read_field res off k =
     (case res of Inl e \<Rightarrow> Inl e | Inr buf \<Rightarrow> Inr (le_value (field buf off k)))"

text \<open>The scanner states that occur: inside a literal name only letters are awaited.\<close>

definition good_state :: "lex_state \<Rightarrow> bool" where
  "good_state st =
     (case st of
        LWord xs \<Rightarrow> CHR 0x0A \<notin> set xs \<and> CHR 0x60 \<notin> set xs
      | _ \<Rightarrow> True)"

section \<open>A sample session\<close>

definition dq :: string where
  "dq = [CHR 0x22]"

text \<open>A response body about the concept \<open>c\<close>, and the story it denotes.\<close>

definition body_about :: "string \<Rightarrow> string" where
  "body_about c =
     ''{'' @ dq @ ''meta'' @ dq @ '':{'' @ dq @ ''detected_language'' @ dq @ '':'' @ dq @
     ''en'' @ dq @ '','' @ dq @ ''educational_concept'' @ dq @ '':'' @ dq @ c @ dq @
     '','' @ dq @ ''context_used'' @ dq @ '':false,'' @ dq @ ''character_voice_profile'' @
     dq @ '':'' @ dq @ ''brave'' @ dq @ ''},'' @ dq @ ''storyboard'' @ dq @ '':{'' @ dq @
     ''title'' @ dq @ '':'' @ dq @ ''Moon'' @ dq @ '','' @ dq @ ''display_text'' @ dq @
     '':'' @ dq @ ''Up (Happy)'' @ dq @ '','' @ dq @ ''audio_text'' @ dq @ '':'' @ dq @
     ''Up!'' @ dq @ '','' @ dq @ ''interactive_question'' @ dq @ '':'' @ dq @ ''Why?'' @
     dq @ '','' @ dq @ ''suggested_questions'' @ dq @ '':['' @ dq @ ''What is the Moon?'' @
     dq @ '','' @ dq @ ''Can I jump?'' @ dq @ '']},'' @ dq @ ''visuals'' @ dq @ '':{'' @
     dq @ ''image_prompt'' @ dq @ '':'' @ dq @ ''a cat'' @ dq @ ''}}''"

definition story_about :: "string \<Rightarrow> js" where
  "story_about c =
     toJS
       \<lparr>meta = \<lparr>detected_language = ''en'', educational_concept = c,
                context_used = False, character_voice_profile = ''brave''\<rparr>,
        storyboard = \<lparr>title = ''Moon'', display_text = ''Up (Happy)'', audio_text = ''Up!'',
                      interactive_question = ''Why?'',
                      suggested_questions = [''What is the Moon?'', ''Can I jump?'']\<rparr>,
        visuals = \<lparr>image_prompt = ''a cat''\<rparr>\<rparr>"

definition sample_file :: File where
  "sample_file = \<lparr>file_type = ''image/png'', file_bytes = [1, 2, 3]\<rparr>"

definition sample_context :: ChildContext where
  "sample_context = \<lparr>childName = Some ''Ann'', characterName = Some ''Bo''\<rparr>"

text \<open>
  Surroundings in which every call succeeds. The text model answers with the fenced body
  about \<open>c\<close>; the speech model with the base64 text \<^verbatim>\<open>AQID\<close>, the three bytes 1, 2, 3.
\<close>

definition world_about :: "string \<Rightarrow> world" where
  "world_about c =
     \<lparr>readAsDataURL = (\<lambda>file. Some (''data:'' @ file_type file @ '';base64,AQID'')),
      textModel = (\<lambda>parts. Inr (Some (fence_open @ body_about c @ fence_close))),
      speechModel = (\<lambda>text. Inr (Some ''AQID'')),
      imageModel = (\<lambda>prompt. Inr [OtherPart, InlinePart (Some ''iVBORw0KGgo='')]),
      JSON_parse = (\<lambda>s. if s = body_about c then Some (story_about c) else None),
      atob = (\<lambda>b. if b = ''AQID'' then Some [CHR 0x01, CHR 0x02, CHR 0x03] else None),
      createObjectURL = (\<lambda>blob. ''blob:wav'')\<rparr>"

definition sample_body :: string where
  "sample_body = body_about ''gravity''"

definition sample_story :: js where
  "sample_story = story_about ''gravity''"

definition sample_world :: world where
  "sample_world = world_about ''gravity''"

text \<open>The same with a text call that rejects, and with a speech call that rejects.\<close>

definition text_failing_world :: world where
  "text_failing_world = sample_world\<lparr>textModel := (\<lambda>parts. Inl CallFailed)\<rparr>"


text \<open>
  A body that \<^verbatim>\<open>JSON.parse\<close> accepts and that has no \<^verbatim>\<open>visuals\<close>, the value it denotes, and
  surroundings that differ from the sample in the answer of the text model only.
\<close>

definition body_without_visuals :: string where
  "body_without_visuals =
     ''{'' @ dq @ ''meta'' @ dq @ '':{'' @ dq @ ''detected_language'' @ dq @ '':'' @ dq @
     ''en'' @ dq @ '','' @ dq @ ''educational_concept'' @ dq @ '':'' @ dq @ ''gravity'' @
     dq @ '','' @ dq @ ''context_used'' @ dq @ '':false,'' @ dq @
     ''character_voice_profile'' @ dq @ '':'' @ dq @ ''brave'' @ dq @ ''},'' @ dq @
     ''storyboard'' @ dq @ '':{'' @ dq @ ''title'' @ dq @ '':'' @ dq @ ''Moon'' @ dq @
     '','' @ dq @ ''display_text'' @ dq @ '':'' @ dq @ ''Up (Happy)'' @ dq @ '','' @ dq @
     ''audio_text'' @ dq @ '':'' @ dq @ ''Up!'' @ dq @ '','' @ dq @
     ''interactive_question'' @ dq @ '':'' @ dq @ ''Why?'' @ dq @ '','' @ dq @
     ''suggested_questions'' @ dq @ '':['' @ dq @ ''What is the Moon?'' @ dq @ '','' @ dq @
     ''Can I jump?'' @ dq @ '']}}''"

definition story_without_visuals :: js where
  "story_without_visuals =
     JObject
       [(''meta'',
           meta_js \<lparr>detected_language = ''en'', educational_concept = ''gravity'',
                    context_used = False, character_voice_profile = ''brave''\<rparr>),
        (''storyboard'',
           storyboard_js \<lparr>title = ''Moon'', display_text = ''Up (Happy)'', audio_text = ''Up!'',
                          interactive_question = ''Why?'',
                          suggested_questions = [''What is the Moon?'', ''Can I jump?'']\<rparr>)]"



section \<open>The encoder writes the header and the samples\<close>

lemma length_le_bytes [simp]: "length (le_bytes k v) = k"
  by (simp add: le_bytes_def)

lemma length_ascii [simp]: "length (ascii s) = length s"
  by (simp add: ascii_def)

lemma thenE_Inr [simp]: "thenE (Inr x) f = f x"
  by (simp add: thenE_def)

lemma thenE_Inl [simp]: "thenE (Inl e) f = Inl e"
  by (simp add: thenE_def)

lemma write_at_skip:
  "length a \<le> off \<Longrightarrow>
   write_at (a @ b) off bs = thenE (write_at b (off - length a) bs) (\<lambda>b'. Inr (a @ b'))"
  by (auto simp add: write_at_def thenE_def)

lemma write_at_here:
  "length old = length bs \<Longrightarrow> write_at (old @ c) 0 bs = Inr (bs @ c)"
  by (simp add: write_at_def)

lemma write_at_all:
  "length old = length bs \<Longrightarrow> write_at old 0 bs = Inr bs"
  by (simp add: write_at_def)

lemma writeString_write_at:
  "off + length s \<le> length view \<Longrightarrow> writeString view off s = write_at view off (ascii s)"
proof (induction s arbitrary: view off)
  case Nil
  then show ?case by (simp add: write_at_def ascii_def)
next
  case (Cons c cs)
  let ?v = "take off view @ [of_char c] @ drop (Suc off) view"
  have 1: "setUint8 view off (of_char c) = Inr ?v"
    using Cons.prems by (simp add: setUint8_def write_at_def le_bytes_def of_int_of_char)
  have 2: "writeString ?v (Suc off) cs = write_at ?v (Suc off) (ascii cs)"
    using Cons.prems by (intro Cons.IH) simp
  have 3: "write_at ?v (Suc off) (ascii cs) = write_at view off (ascii (c # cs))"
    using Cons.prems
    by (auto simp add: write_at_def ascii_def min_def take_Suc_conv_app_nth
        Cons_nth_drop_Suc add.commute)
  show ?case using 1 2 3 by simp
qed

lemma zeros_split:
  "replicate (44 + n) (0::byte) =
   replicate 4 0 @ replicate 4 0 @ replicate 4 0 @ replicate 4 0 @ replicate 4 0 @
   replicate 2 0 @ replicate 2 0 @ replicate 4 0 @ replicate 4 0 @ replicate 2 0 @
   replicate 2 0 @ replicate 4 0 @ replicate 4 0 @ replicate n 0"
  by (simp add: replicate_add [symmetric] del: replicate_Suc)

lemma pcmToWav_layout: "pcmToWav pcm r = Inr (wav_header (length pcm) r @ pcm)"
  unfolding pcmToWav_def Let_def zeros_split wav_header_def setUint32_def setUint16_def
    typed_set_def
  by (simp add: writeString_write_at write_at_skip write_at_here write_at_all
      del: replicate_Suc writeString.simps)

lemma le_bytes_Suc: "le_bytes (Suc k) v = word_of_int v # le_bytes k (v div 256)"
proof -
  have "[0..<Suc k] = 0 # map Suc [0..<k]"
    by (simp add: upt_conv_Cons map_Suc_upt del: upt_Suc)
  then show ?thesis
    by (simp add: le_bytes_def comp_def zdiv_zmult2_eq del: upt_Suc)
qed

lemma unat_byte_of_int: "unat (word_of_int v :: byte) = nat (v mod 256)"
  by (simp add: unat_eq_nat_uint uint_word_of_int)

lemma le_value_le_bytes: "le_value (le_bytes k v) = nat (v mod 256 ^ k)"
proof (induction k arbitrary: v)
  case 0
  then show ?case by (simp add: le_bytes_def)
next
  case (Suc k)
  have "v mod (256 * 256 ^ k) = 256 * (v div 256 mod 256 ^ k) + v mod 256"
    by (simp add: zmod_zmult2_eq)
  moreover have "0 \<le> v div 256 mod 256 ^ k" "0 \<le> v mod 256" by simp_all
  ultimately show ?case
    by (simp add: le_bytes_Suc Suc.IH unat_byte_of_int nat_add_distrib nat_mult_distrib)
qed

lemma field_header:
  "field (wav_header n r @ pcm) 0 4 = ascii ''RIFF''"
  "field (wav_header n r @ pcm) 4 4 = le_bytes 4 (36 + int n)"
  "field (wav_header n r @ pcm) 8 4 = ascii ''WAVE''"
  "field (wav_header n r @ pcm) 12 4 = ascii ''fmt ''"
  "field (wav_header n r @ pcm) 16 4 = le_bytes 4 16"
  "field (wav_header n r @ pcm) 20 2 = le_bytes 2 1"
  "field (wav_header n r @ pcm) 22 2 = le_bytes 2 1"
  "field (wav_header n r @ pcm) 24 4 = le_bytes 4 r"
  "field (wav_header n r @ pcm) 28 4 = le_bytes 4 (2 * r)"
  "field (wav_header n r @ pcm) 32 2 = le_bytes 2 2"
  "field (wav_header n r @ pcm) 34 2 = le_bytes 2 16"
  "field (wav_header n r @ pcm) 36 4 = ascii ''data''"
  "field (wav_header n r @ pcm) 40 4 = le_bytes 4 (int n)"
  by (simp_all add: field_def wav_header_def)

lemma length_wav_header [simp]: "length (wav_header n r) = 44"
  by (simp add: wav_header_def)

lemma int_le_value_le_bytes: "int (le_value (le_bytes 4 v)) = v mod 4294967296"
  by (simp add: le_value_le_bytes)

lemma le_value_le_bytes_nat: "le_value (le_bytes 4 (int m)) = m mod 4294967296"
proof -
  have "int (le_value (le_bytes 4 (int m))) = int (m mod 4294967296)"
    by (simp add: int_le_value_le_bytes zmod_int)
  then show ?thesis by (simp only: int_int_eq)
qed

text \<open>
  C2, as the code has it. For every PCM byte buffer of length \<open>n\<close> and every integer
  sample rate \<open>r\<close> the encoder returns a buffer of \<open>44 + n\<close> bytes: \<^verbatim>\<open>RIFF\<close>, \<open>36 + n\<close>,
  \<^verbatim>\<open>WAVE\<close>, \<^verbatim>\<open>fmt \<close>, chunk size 16, format 1, 1 channel, rate \<open>r\<close>, byte rate \<open>2 * r\<close>,
  block align 2, 16 bits per sample, \<^verbatim>\<open>data\<close>, \<open>n\<close>, and then the input bytes unchanged. The
  numbers are little-endian, and the four that depend on the input are stored modulo
  \<open>2 ^ 32\<close>: they are \<open>36 + n\<close>, \<open>r\<close>, \<open>2 * r\<close> and \<open>n\<close> themselves when \<open>36 + n < 2 ^ 32\<close>
  and \<open>0 \<le> r < 2 ^ 31\<close>.
\<close>

theorem pcmToWav_container:
  "\<exists>out. pcmToWav pcm r = Inr out
    \<and> length out = 44 + length pcm
    \<and> field out 0 4 = ascii ''RIFF''
    \<and> le_value (field out 4 4) = (36 + length pcm) mod 2 ^ 32
    \<and> field out 8 4 = ascii ''WAVE''
    \<and> field out 12 4 = ascii ''fmt ''
    \<and> le_value (field out 16 4) = 16
    \<and> le_value (field out 20 2) = 1
    \<and> le_value (field out 22 2) = 1
    \<and> int (le_value (field out 24 4)) = r mod 2 ^ 32
    \<and> int (le_value (field out 28 4)) = (2 * r) mod 2 ^ 32
    \<and> le_value (field out 32 2) = 2
    \<and> le_value (field out 34 2) = 16
    \<and> field out 36 4 = ascii ''data''
    \<and> le_value (field out 40 4) = length pcm mod 2 ^ 32
    \<and> drop 44 out = pcm
    \<and> (0 \<le> r \<and> r < 2 ^ 31 \<and> 36 + length pcm < 2 ^ 32 \<longrightarrow>
         le_value (field out 4 4) = 36 + length pcm
         \<and> int (le_value (field out 24 4)) = r
         \<and> int (le_value (field out 28 4)) = 2 * r
         \<and> le_value (field out 40 4) = length pcm)"
proof -
  let ?out = "wav_header (length pcm) r @ pcm"
  have size: "le_value (field ?out 4 4) = (36 + length pcm) mod 2 ^ 32"
    using le_value_le_bytes_nat [of "36 + length pcm"] by (simp add: field_header)
  have rate: "int (le_value (field ?out 24 4)) = r mod 2 ^ 32"
    by (simp add: field_header int_le_value_le_bytes)
  have byte_rate: "int (le_value (field ?out 28 4)) = (2 * r) mod 2 ^ 32"
    by (simp add: field_header int_le_value_le_bytes)
  have data_size: "le_value (field ?out 40 4) = length pcm mod 2 ^ 32"
    by (simp add: field_header le_value_le_bytes_nat)
  have fixed: "le_value (field ?out 16 4) = 16" "le_value (field ?out 20 2) = 1"
    "le_value (field ?out 22 2) = 1" "le_value (field ?out 32 2) = 2"
    "le_value (field ?out 34 2) = 16"
    by (simp_all add: field_header le_value_le_bytes)
  have samples: "drop 44 ?out = pcm" "length ?out = 44 + length pcm"
    by simp_all
  have exact: "le_value (field ?out 4 4) = 36 + length pcm
      \<and> int (le_value (field ?out 24 4)) = r
      \<and> int (le_value (field ?out 28 4)) = 2 * r
      \<and> le_value (field ?out 40 4) = length pcm"
    if "0 \<le> r \<and> r < 2 ^ 31 \<and> 36 + length pcm < 2 ^ 32"
    using that size rate byte_rate data_size by simp
  from size rate byte_rate data_size fixed samples exact show ?thesis
    by (simp add: pcmToWav_layout field_header)
qed

theorem pcmToWav_container_witness:
  "(0::int) \<le> 24000 \<and> (24000::int) < 2 ^ 31 \<and> 36 + length [1, 2, 3, 4 :: byte] < 2 ^ 32
   \<and> (\<exists>out. pcmToWav [1, 2, 3, 4] 24000 = Inr out
        \<and> length out = 48
        \<and> field out 0 4 = ascii ''RIFF''
        \<and> int (le_value (field out 24 4)) = 24000
        \<and> int (le_value (field out 28 4)) = 48000
        \<and> field out 36 4 = ascii ''data''
        \<and> field out 40 4 = [4, 0, 0, 0]
        \<and> le_value (field out 40 4) = 4
        \<and> field out 44 4 = [1, 2, 3, 4])"
proof -
  have h: "(0::int) \<le> 24000 \<and> (24000::int) < 2 ^ 31 \<and> 36 + length [1, 2, 3, 4 :: byte] < 2 ^ 32"
    by simp
  from pcmToWav_container [of "[1, 2, 3, 4]" 24000] obtain out where
    out: "pcmToWav [1, 2, 3, 4] 24000 = Inr out" "length out = 44 + length [1, 2, 3, 4 :: byte]"
      "field out 0 4 = ascii ''RIFF''" "field out 36 4 = ascii ''data''"
      "drop 44 out = [1, 2, 3, 4]"
    and exact: "0 \<le> (24000::int) \<and> (24000::int) < 2 ^ 31 \<and> 36 + length [1, 2, 3, 4 :: byte] < 2 ^ 32
      \<longrightarrow> le_value (field out 4 4) = 36 + length [1, 2, 3, 4 :: byte]
        \<and> int (le_value (field out 24 4)) = 24000
        \<and> int (le_value (field out 28 4)) = 2 * 24000
        \<and> le_value (field out 40 4) = length [1, 2, 3, 4 :: byte]"
    by blast
  from exact h have fields: "int (le_value (field out 24 4)) = 24000"
    "int (le_value (field out 28 4)) = 48000" "le_value (field out 40 4) = 4"
    by simp_all
  have "out = wav_header (length [1, 2, 3, 4 :: byte]) 24000 @ [1, 2, 3, 4]"
    using out(1) pcmToWav_layout [of "[1, 2, 3, 4]" 24000] by simp
  then have "field out 40 4 = le_bytes 4 (int (length [1, 2, 3, 4 :: byte]))"
    by (simp only: field_header)
  then have "field out 40 4 = [4, 0, 0, 0]"
    by (simp add: le_bytes_def upt_conv_Cons)
  with h out fields show ?thesis by (simp add: field_def)
qed

theorem pcmToWav_byte_rate_counterexample:
  "read_field (pcmToWav [] 2147483648) 28 4 = Inr 0
   \<and> read_field (pcmToWav [] 2147483648) 28 4 \<noteq> Inr (2 * 2147483648)"
  using field_header(9) [of 0 2147483648 "[]"]
  by (simp add: read_field_def pcmToWav_layout le_value_le_bytes)

section \<open>Fences around a JSON text\<close>

lemmas lex_defs = top_step_def number_ends_def json_ws_def is_digit_def is_hex_def is_exp_def

lemma good_state_step: "good_state st \<Longrightarrow> lex_step st c = Some (ts, st') \<Longrightarrow> good_state st'"
  by (cases "(st, c)" rule: lex_step.cases)
     (auto simp add: good_state_def lex_defs split: if_splits)

lemma lex_step_newline:
  "good_state st \<Longrightarrow> lex_step st c = Some (ts, st') \<Longrightarrow> c = CHR 0x0A \<Longrightarrow> st' = LTop"
  by (cases "(st, c)" rule: lex_step.cases)
     (auto simp add: good_state_def lex_defs split: if_splits)

lemma lex_step_backtick:
  "good_state st \<Longrightarrow> lex_step st c = Some (ts, st') \<Longrightarrow> c = CHR 0x60 \<Longrightarrow> st = LStr \<and> st' = LStr"
  by (cases "(st, c)" rule: lex_step.cases)
     (auto simp add: good_state_def lex_defs split: if_splits)

lemma scan_newline_backtick:
  assumes "good_state st" shows "scan st (CHR 0x0A # CHR 0x60 # cs) = None"
proof (cases "lex_step st (CHR 0x0A)")
  case None
  then show ?thesis by simp
next
  case (Some p)
  then obtain ts st' where p: "lex_step st (CHR 0x0A) = Some (ts, st')" by (cases p) auto
  with assms have "st' = LTop" by (auto dest: lex_step_newline)
  then show ?thesis using p by (simp add: top_step_def json_ws_def is_digit_def)
qed

lemma scan_backtick:
  assumes "good_state st" "scan st (CHR 0x60 # cs) \<noteq> None"
  shows "st = LStr \<and> scan LStr cs \<noteq> None"
proof -
  from assms(2) obtain ts st' where p: "lex_step st (CHR 0x60) = Some (ts, st')" and q: "scan st' cs \<noteq> None"
    by (auto split: option.splits)
  with assms(1) have "st = LStr \<and> st' = LStr" by (auto dest: lex_step_backtick)
  with q show ?thesis by simp
qed

lemma scan_fence_open:
  assumes "good_state st" shows "scan st (''```json'' @ CHR 0x0A # cs) = None"
proof (rule ccontr)
  assume "scan st (''```json'' @ CHR 0x0A # cs) \<noteq> None"
  then have "scan st (CHR 0x60 # ''``json'' @ CHR 0x0A # cs) \<noteq> None"
    by (simp del: scan.simps)
  from scan_backtick [OF assms this] show False by simp
qed

lemma scan_fence_open_unclosed:
  assumes "good_state st" shows "scan st ''```json'' = None"
proof (rule ccontr)
  assume "scan st ''```json'' \<noteq> None"
  from scan_backtick [OF assms this] show False by simp
qed

lemma prefix_fence_close_scan:
  assumes "good_state st" "scan st (c # cs) \<noteq> None"
  shows "\<not> prefix fence_close (c # cs @ fence_close)"
proof
  assume p: "prefix fence_close (c # cs @ fence_close)"
  show False
  proof (cases cs)
    case Nil
    with p show False by (simp add: fence_close_def)
  next
    case (Cons d ds)
    with p have "c = CHR 0x0A" "d = CHR 0x60" by (simp_all add: fence_close_def)
    with assms(2) Cons have "scan st (CHR 0x0A # CHR 0x60 # ds) \<noteq> None" by (simp del: scan.simps)
    with scan_newline_backtick [OF assms(1)] show False by (auto simp del: scan.simps)
  qed
qed

lemma fence_open_split:
  assumes "fence_open = s @ us" "prefix us fence_close" "s \<noteq> []"
  shows "s = ''```json'' \<or> s = fence_open"
proof -
  from assms(1) have "s \<in> set (prefixes fence_open)" by (metis in_set_prefixes prefixI)
  then have "s \<in> set (prefixes (''```json'' @ [CHR 0x0A]))" by (simp add: fence_open_def)
  then consider "s = []" | "s = ''`''" | "s = ''``''" | "s = ''```''" | "s = ''```j''" | "s = ''```js''"
    | "s = ''```jso''" | "s = ''```json''" | "s = ''```json'' @ [CHR 0x0A]"
    by auto
  then show ?thesis using assms
    by cases (auto simp add: fence_open_def fence_close_def)
qed

lemma prefix_fence_open_scan:
  assumes "good_state st" "scan st s \<noteq> None" "s \<noteq> []"
  shows "\<not> prefix fence_open (s @ fence_close)"
proof
  assume p: "prefix fence_open (s @ fence_close)"
  then consider (inside) "prefix fence_open s" | (across) us where "fence_open = s @ us" "prefix us fence_close"
    by (auto simp add: prefix_append)
  then show False
  proof cases
    case inside
    then obtain t where "s = ''```json'' @ CHR 0x0A # t" by (auto simp add: prefix_def fence_open_def)
    with assms(2) scan_fence_open [OF assms(1)] show False by (auto simp del: scan.simps)
  next
    case across
    from across assms(3) have "s = ''```json'' \<or> s = fence_open" by (rule fence_open_split)
    then show False
    proof
      assume "s = ''```json''"
      with assms(2) scan_fence_open_unclosed [OF assms(1)] show False by (auto simp del: scan.simps)
    next
      assume "s = fence_open"
      then have "s = ''```json'' @ CHR 0x0A # []" by (simp add: fence_open_def)
      with assms(2) scan_fence_open [OF assms(1)] show False by (auto simp del: scan.simps)
    qed
  qed
qed

lemma stripFences_scanned:
  "good_state st \<Longrightarrow> scan st s \<noteq> None \<Longrightarrow> stripFences (s @ fence_close) = s"
proof (induction s arbitrary: st)
  case Nil
  show ?case by (simp add: fence_close_def fence_open_def)
next
  case (Cons c cs)
  from Cons.prems(2) obtain ts st' where step: "lex_step st c = Some (ts, st')" and rest: "scan st' cs \<noteq> None"
    by (auto split: option.splits)
  have good: "good_state st'" using Cons.prems(1) step by (rule good_state_step)
  have 1: "\<not> prefix fence_open ((c # cs) @ fence_close)"
    using Cons.prems by (intro prefix_fence_open_scan) auto
  have 2: "\<not> prefix fence_close (c # cs @ fence_close)"
    using Cons.prems by (rule prefix_fence_close_scan)
  from 1 2 Cons.IH [OF good rest] show ?case by simp
qed


lemma stripFences_bare:
  "good_state st \<Longrightarrow> scan st s \<noteq> None \<Longrightarrow> stripFences s = s"
proof (induction s arbitrary: st)
  case Nil
  show ?case by simp
next
  case (Cons c cs)
  from Cons.prems(2) obtain ts st' where step: "lex_step st c = Some (ts, st')" and rest: "scan st' cs \<noteq> None"
    by (auto split: option.splits)
  have good: "good_state st'" using Cons.prems(1) step by (rule good_state_step)
  have "\<not> prefix fence_open ((c # cs) @ fence_close)"
    using Cons.prems by (intro prefix_fence_open_scan) auto
  then have 1: "\<not> prefix fence_open (c # cs)"
    using prefix_prefix by blast
  have "\<not> prefix fence_close (c # cs @ fence_close)"
    using Cons.prems by (rule prefix_fence_close_scan)
  then have 2: "\<not> prefix fence_close (c # cs)"
    using prefix_prefix [of fence_close "c # cs" fence_close] by auto
  from 1 2 Cons.IH [OF good rest] show ?case by simp
qed

lemma stripFences_open: "stripFences (fence_open @ t) = stripFences t"
  by (simp add: fence_open_def)

lemma json_text_scanned: "json_text s \<Longrightarrow> scan LTop s \<noteq> None"
  by (auto simp add: json_text_def split: option.splits)

lemma json_text_nonempty: "json_text s \<Longrightarrow> s \<noteq> []"
  by (auto simp add: json_text_def)

lemma good_state_LTop: "good_state LTop"
  by (simp add: good_state_def)

text \<open>
  C6. For every JSON text \<open>s\<close>, the response body \<^verbatim>\<open>```json\n\<close> \<open>s\<close> \<^verbatim>\<open>\n```\<close> gives the same
  result as the response body \<open>s\<close>: both are what \<^verbatim>\<open>JSON.parse\<close> makes of \<open>s\<close> trimmed.
\<close>

theorem fence_stripping_parse_equivalent:
  assumes "json_text s"
  shows "storyFromResponse w (Some (fence_open @ s @ fence_close)) = storyFromResponse w (Some s)
    \<and> storyFromResponse w (Some s)
        = (case JSON_parse w (trim s) of None \<Rightarrow> Inl SyntaxError | Some story \<Rightarrow> Inr story)"
proof -
  have sc: "scan LTop s \<noteq> None" using assms by (rule json_text_scanned)
  have "stripFences (fence_open @ s @ fence_close) = s"
    using stripFences_scanned [OF good_state_LTop sc] by (simp add: stripFences_open)
  moreover have "stripFences s = s"
    using stripFences_bare [OF good_state_LTop sc] .
  moreover have "s \<noteq> []" using assms by (rule json_text_nonempty)
  moreover have "fence_open @ s @ fence_close \<noteq> []" by (simp add: fence_open_def)
  ultimately show ?thesis by (simp add: storyFromResponse_def)
qed

lemma json_text_bodies:
  "json_text (body_about ''gravity'')" "json_text (body_about ''tides'')"
  "json_text (body_about ''rain'')" "json_text (body_about ''light'')"
  by code_simp+

lemma trim_bodies:
  "trim (body_about ''gravity'') = body_about ''gravity''"
  "trim (body_about ''tides'') = body_about ''tides''"
  "trim (body_about ''rain'') = body_about ''rain''"
  "trim (body_about ''light'') = body_about ''light''"
  by code_simp+

lemma json_text_sample_body: "json_text sample_body"
  by (simp add: sample_body_def json_text_bodies)

lemma trim_sample_body: "trim sample_body = sample_body"
  by (simp add: sample_body_def trim_bodies)

theorem fence_stripping_parse_equivalent_witness:
  "json_text sample_body
   \<and> storyFromResponse sample_world (Some (fence_open @ sample_body @ fence_close)) = Inr sample_story
   \<and> storyFromResponse sample_world (Some sample_body) = Inr sample_story"
proof -
  have "JSON_parse sample_world sample_body = Some sample_story"
    by (simp add: sample_world_def world_about_def sample_body_def sample_story_def)
  then have parsed: "JSON_parse sample_world (trim sample_body) = Some sample_story"
    by (simp add: trim_sample_body)
  from fence_stripping_parse_equivalent [OF json_text_sample_body, of sample_world] parsed
  show ?thesis by (simp add: json_text_sample_body)
qed

section \<open>One turn\<close>


lemma media_arguments_cases:
  "media_arguments story =
     (case read_audio_text story of
        Inl e \<Rightarrow> Inl e
      | Inr text \<Rightarrow>
          (case read_image_prompt story of
             Inl e \<Rightarrow> Inl e
           | Inr prompt \<Rightarrow> Inr (text, prompt)))"
  by (simp add: media_arguments_def thenE_def split: sum.splits)

lemma processStoryGeneration_fulfilled:
  "generateStory w img q ctx (previousTopics st) = Inr story \<Longrightarrow>
   read_audio_text story = Inr text \<Longrightarrow> read_image_prompt story = Inr prompt \<Longrightarrow>
   processStoryGeneration w st img q ctx =
     media_settled (text_fulfilled (turn_begin w st img q ctx) story)
       (generateSpeech w text) (generateIllustration w prompt)"
  by (simp add: processStoryGeneration_def media_arguments_cases)


lemma processStoryGeneration_rejected:
  "generateStory w img q ctx (previousTopics st) = Inl e \<Longrightarrow>
   processStoryGeneration w st img q ctx = text_rejected (turn_begin w st img q ctx)"
  by (simp add: processStoryGeneration_def)

lemma media_settled_fields:
  "audioUrl (media_settled st a i) = (case a of Inl e \<Rightarrow> audioUrl st | Inr u \<Rightarrow> Some u)"
  "imageUrl (media_settled st a i) = (case i of Inl e \<Rightarrow> imageUrl st | Inr u \<Rightarrow> Some u)"
  "appState (media_settled st a i) = PLAYING"
  "storyData (media_settled st a i) = storyData st"
  "errorMsg (media_settled st a i) = errorMsg st"
  "previousTopics (media_settled st a i) = previousTopics st"
  "currentFile (media_settled st a i) = currentFile st"
  "currentContext (media_settled st a i) = currentContext st"
  "issued (media_settled st a i) = issued st"
  "renderFailed (media_settled st a i) = renderFailed st"
  by (simp_all add: media_settled_def Let_def split: sum.splits)

lemma text_fulfilled_fields:
  "audioUrl (text_fulfilled st story) = audioUrl st"
  "imageUrl (text_fulfilled st story) = imageUrl st"
  "appState (text_fulfilled st story) =
     (case media_arguments story of Inl e \<Rightarrow> PLAYING | Inr x \<Rightarrow> GENERATING_MEDIA)"
  "storyData (text_fulfilled st story) = Some story"
  "errorMsg (text_fulfilled st story) = errorMsg st"
  "previousTopics (text_fulfilled st story) =
     (case read_educational_concept story of
        Inl e \<Rightarrow> previousTopics st
      | Inr concept \<Rightarrow> slice_last 3 (previousTopics st @ [concept]))"
  "currentFile (text_fulfilled st story) = currentFile st"
  "currentContext (text_fulfilled st story) = currentContext st"
  "issued (text_fulfilled st story) = issued st @ media_requests story"
  "renderFailed (text_fulfilled st story) =
     (case read_educational_concept story of Inl e \<Rightarrow> True | Inr concept \<Rightarrow> renderFailed st)"
  by (simp_all add: text_fulfilled_def Let_def split: sum.splits)

lemma text_rejected_fields:
  "audioUrl (text_rejected st) = audioUrl st"
  "imageUrl (text_rejected st) = imageUrl st"
  "appState (text_rejected st) = ERROR"
  "storyData (text_rejected st) = storyData st"
  "errorMsg (text_rejected st) = Some ''Oops! The magic wand sputtered. Please try again!''"
  "previousTopics (text_rejected st) = previousTopics st"
  "currentFile (text_rejected st) = currentFile st"
  "currentContext (text_rejected st) = currentContext st"
  "issued (text_rejected st) = issued st"
  "renderFailed (text_rejected st) = renderFailed st"
  by (simp_all add: text_rejected_def)

lemma turn_begin_fields:
  "audioUrl (turn_begin w st img q ctx) = None"
  "imageUrl (turn_begin w st img q ctx) = None"
  "appState (turn_begin w st img q ctx) = ANALYZING"
  "storyData (turn_begin w st img q ctx) = storyData st"
  "errorMsg (turn_begin w st img q ctx) = None"
  "previousTopics (turn_begin w st img q ctx) = previousTopics st"
  "currentFile (turn_begin w st img q ctx) = currentFile st"
  "currentContext (turn_begin w st img q ctx) = currentContext st"
  "issued (turn_begin w st img q ctx) = issued st @
     (case storyRequest w img q ctx (previousTopics st) of
        Inl e \<Rightarrow> [] | Inr parts \<Rightarrow> [TextRequest parts])"
  "renderFailed (turn_begin w st img q ctx) = renderFailed st"
  by (simp_all add: turn_begin_def)

lemma handleReset_fields:
  "audioUrl (handleReset st) = None"
  "imageUrl (handleReset st) = None"
  "appState (handleReset st) = IDLE"
  "storyData (handleReset st) = None"
  "errorMsg (handleReset st) = None"
  "previousTopics (handleReset st) = []"
  "currentFile (handleReset st) = None"
  "currentContext (handleReset st) = \<lparr>childName = Some [], characterName = Some []\<rparr>"
  "issued (handleReset st) = issued st"
  "renderFailed (handleReset st) = renderFailed st"
  by (simp_all add: handleReset_def)

lemmas step_fields =
  media_settled_fields text_fulfilled_fields text_rejected_fields turn_begin_fields
  handleReset_fields

section \<open>Stories of the declared shape\<close>

lemma reads_toJS:
  "read_educational_concept (toJS s) = Inr (JString (educational_concept (meta s)))"
  "read_audio_text (toJS s) = Inr (JString (audio_text (storyboard s)))"
  "read_image_prompt (toJS s) = Inr (JString (image_prompt (visuals s)))"
  by (simp_all add: read_educational_concept_def read_audio_text_def read_image_prompt_def
      toJS_def meta_js_def storyboard_js_def visuals_js_def)

lemma reads_story_about:
  "read_educational_concept (story_about c) = Inr (JString c)"
  "read_audio_text (story_about c) = Inr (JString ''Up!'')"
  "read_image_prompt (story_about c) = Inr (JString ''a cat'')"
  by (simp_all add: story_about_def reads_toJS)

lemma reads_sample_story:
  "read_educational_concept sample_story = Inr (JString ''gravity'')"
  "read_audio_text sample_story = Inr (JString ''Up!'')"
  "read_image_prompt sample_story = Inr (JString ''a cat'')"
  by (simp_all add: sample_story_def reads_story_about)


section \<open>The sample session\<close>

lemma storyFromResponse_about:
  assumes "json_text (body_about c)" and "trim (body_about c) = body_about c"
  shows "storyFromResponse (world_about c) (Some (fence_open @ body_about c @ fence_close))
    = Inr (story_about c)"
proof -
  have "stripFences (fence_open @ body_about c @ fence_close) = body_about c"
    using stripFences_scanned [OF good_state_LTop json_text_scanned [OF assms(1)]]
    by (simp add: stripFences_open)
  moreover have "fence_open @ body_about c @ fence_close \<noteq> []"
    by (simp add: fence_open_def)
  moreover have "JSON_parse (world_about c) (body_about c) = Some (story_about c)"
    by (simp add: world_about_def)
  ultimately show ?thesis
    by (simp add: storyFromResponse_def assms(2))
qed

lemma generateStory_about:
  assumes "json_text (body_about c)" and "trim (body_about c) = body_about c"
  shows "generateStory (world_about c) img q ctx topics = Inr (story_about c)"
proof -
  have "\<exists>parts. storyRequest (world_about c) img q ctx topics = Inr parts"
    by (cases img) (simp_all add: storyRequest_def fileToGenerativePart_def world_about_def)
  moreover have "textModel (world_about c) = (\<lambda>parts. Inr (Some (fence_open @ body_about c @ fence_close)))"
    by (simp add: world_about_def)
  ultimately show ?thesis
    using storyFromResponse_about [OF assms] by (auto simp add: generateStory_def)
qed

lemma generateStory_worlds:
  "generateStory (world_about ''gravity'') img q ctx topics = Inr (story_about ''gravity'')"
  "generateStory (world_about ''tides'') img q ctx topics = Inr (story_about ''tides'')"
  "generateStory (world_about ''rain'') img q ctx topics = Inr (story_about ''rain'')"
  "generateStory (world_about ''light'') img q ctx topics = Inr (story_about ''light'')"
  by (simp_all add: generateStory_about json_text_bodies trim_bodies)

lemma world_fields:
  "readAsDataURL sample_world = (\<lambda>file. Some (''data:'' @ file_type file @ '';base64,AQID''))"
  "textModel sample_world = (\<lambda>parts. Inr (Some (fence_open @ sample_body @ fence_close)))"
  "speechModel sample_world = (\<lambda>text. Inr (Some ''AQID''))"
  "imageModel sample_world = (\<lambda>prompt. Inr [OtherPart, InlinePart (Some ''iVBORw0KGgo='')])"
  "atob sample_world = (\<lambda>b. if b = ''AQID'' then Some [CHR 0x01, CHR 0x02, CHR 0x03] else None)"
  "createObjectURL sample_world = (\<lambda>blob. ''blob:wav'')"
  by (simp_all add: sample_world_def world_about_def sample_body_def)

lemma generateStory_sample:
  "generateStory sample_world img q ctx topics = Inr sample_story"
  by (simp add: sample_world_def sample_story_def generateStory_worlds)



lemma generateStory_text_failing:
  "generateStory text_failing_world img q ctx topics = Inl CallFailed"
proof -
  have "\<exists>parts. storyRequest text_failing_world img q ctx topics = Inr parts"
    by (cases img)
       (simp_all add: storyRequest_def fileToGenerativePart_def text_failing_world_def world_fields)
  then show ?thesis
    by (auto simp add: generateStory_def text_failing_world_def)
qed

lemma bodies_serialise_stories:
  "JSON_stringify sample_story = Some sample_body"
  "JSON_stringify story_without_visuals = Some body_without_visuals"
  by code_simp+







lemma generateIllustration_sample:
  "generateIllustration sample_world prompt = Inr ''data:image/png;base64,iVBORw0KGgo=''"
  by (simp add: generateIllustration_def world_fields template_def)


section \<open>The media join\<close>




section \<open>The topic history\<close>




lemma previousTopics_processStoryGeneration:
  "previousTopics (processStoryGeneration w st img q ctx) =
     (case thenE (generateStory w img q ctx (previousTopics st)) read_educational_concept of
        Inl e \<Rightarrow> previousTopics st
      | Inr concept \<Rightarrow> slice_last 3 (previousTopics st @ [concept]))"
  by (simp add: processStoryGeneration_def step_fields thenE_def Let_def
      split: sum.splits prod.splits)










section \<open>A failed text call\<close>

lemma generateStory_call_rejects:
  "storyRequest w img q ctx topics = Inr parts \<Longrightarrow> textModel w parts = Inl e \<Longrightarrow>
   generateStory w img q ctx topics = Inl e"
  by (simp add: generateStory_def)

lemma generateStory_empty_text:
  "storyRequest w img q ctx topics = Inr parts \<Longrightarrow>
   textModel w parts = Inr None \<or> textModel w parts = Inr (Some []) \<Longrightarrow>
   generateStory w img q ctx topics = Inl NoResponse"
  by (auto simp add: generateStory_def storyFromResponse_def)

lemma generateStory_unparseable:
  "storyRequest w img q ctx topics = Inr parts \<Longrightarrow> textModel w parts = Inr (Some t) \<Longrightarrow>
   JSON_parse w (trim (stripFences t)) = None \<Longrightarrow>
   \<exists>e. generateStory w img q ctx topics = Inl e"
  by (auto simp add: generateStory_def storyFromResponse_def)

lemma processStoryGeneration_text_failed:
  assumes "generateStory w img q ctx (previousTopics st) = Inl e"
  shows "appState (processStoryGeneration w st img q ctx) = ERROR"
    "errorMsg (processStoryGeneration w st img q ctx)
       = Some ''Oops! The magic wand sputtered. Please try again!''"
    "audioUrl (processStoryGeneration w st img q ctx) = None"
    "imageUrl (processStoryGeneration w st img q ctx) = None"
    "storyData (processStoryGeneration w st img q ctx) = storyData st"
    "previousTopics (processStoryGeneration w st img q ctx) = previousTopics st"
  by (simp_all add: processStoryGeneration_rejected [OF assms] step_fields)

text \<open>
  C4, as the code has it. If the text call rejects, returns no or empty text, or returns
  text that \<^verbatim>\<open>JSON.parse\<close> rejects after the fences are stripped, the turn ends in \<open>ERROR\<close>
  with the user-facing message set, both media URLs cleared and the topic history
  unchanged. The stored story is left as it was before the turn: \<open>None\<close> if it was \<open>None\<close>,
  the story of the previous turn otherwise.
\<close>

theorem text_failure_ends_in_error:
  assumes "storyRequest w img q ctx (previousTopics st) = Inr parts"
    and "(\<exists>e. textModel w parts = Inl e)
       \<or> textModel w parts = Inr None
       \<or> textModel w parts = Inr (Some [])
       \<or> (\<exists>t. textModel w parts = Inr (Some t) \<and> JSON_parse w (trim (stripFences t)) = None)"
  shows "appState (processStoryGeneration w st img q ctx) = ERROR
    \<and> errorMsg (processStoryGeneration w st img q ctx)
        = Some ''Oops! The magic wand sputtered. Please try again!''
    \<and> audioUrl (processStoryGeneration w st img q ctx) = None
    \<and> imageUrl (processStoryGeneration w st img q ctx) = None
    \<and> previousTopics (processStoryGeneration w st img q ctx) = previousTopics st
    \<and> storyData (processStoryGeneration w st img q ctx) = storyData st
    \<and> (storyData st = None \<longrightarrow> storyData (processStoryGeneration w st img q ctx) = None)"
proof -
  from assms have "\<exists>e. generateStory w img q ctx (previousTopics st) = Inl e"
    using generateStory_call_rejects generateStory_empty_text generateStory_unparseable
    by (metis (full_types))
  then obtain e where "generateStory w img q ctx (previousTopics st) = Inl e" ..
  then show ?thesis by (simp add: processStoryGeneration_text_failed)
qed

lemma storyRequest_no_image:
  "storyRequest w None q ctx topics = Inr [TextPart (textPrompt None q ctx topics)]"
  by (simp add: storyRequest_def)

theorem text_failure_ends_in_error_witness:
  "storyRequest text_failing_world None ''Why?'' sample_context (previousTopics initial_app)
     = Inr [TextPart (textPrompt None ''Why?'' sample_context [])]
   \<and> textModel text_failing_world [TextPart (textPrompt None ''Why?'' sample_context [])]
     = Inl CallFailed
   \<and> storyData initial_app = None
   \<and> appState (processStoryGeneration text_failing_world initial_app None ''Why?'' sample_context)
     = ERROR
   \<and> storyData (processStoryGeneration text_failing_world initial_app None ''Why?'' sample_context)
     = None
   \<and> previousTopics
       (processStoryGeneration text_failing_world initial_app None ''Why?'' sample_context)
     = []"
proof -
  have req: "storyRequest text_failing_world None ''Why?'' sample_context
      (previousTopics initial_app) = Inr [TextPart (textPrompt None ''Why?'' sample_context [])]"
    by (simp add: storyRequest_no_image initial_app_def)
  have call: "textModel text_failing_world [TextPart (textPrompt None ''Why?'' sample_context [])]
      = Inl CallFailed"
    by (simp add: text_failing_world_def)
  have init: "storyData initial_app = None" "previousTopics initial_app = []"
    by (simp_all add: initial_app_def)
  from call have "(\<exists>e. textModel text_failing_world
        [TextPart (textPrompt None ''Why?'' sample_context [])] = Inl e)
     \<or> textModel text_failing_world [TextPart (textPrompt None ''Why?'' sample_context [])]
        = Inr None
     \<or> textModel text_failing_world [TextPart (textPrompt None ''Why?'' sample_context [])]
        = Inr (Some [])
     \<or> (\<exists>t. textModel text_failing_world [TextPart (textPrompt None ''Why?'' sample_context [])]
        = Inr (Some t) \<and> JSON_parse text_failing_world (trim (stripFences t)) = None)"
    by blast
  from text_failure_ends_in_error [OF req this] req call init show ?thesis
    by simp
qed

text \<open>
  The claim as stated fails: a follow-up whose text call rejects, after a successful
  turn, leaves the story of that turn stored.
\<close>

theorem text_failure_keeps_prior_story_counterexample:
  "appState (handleSuggestedQuestionClick text_failing_world
      (handleStartAdventure sample_world initial_app (Some sample_file) ''Why?'' sample_context)
      ''Can I jump?'') = ERROR
   \<and> storyData (handleSuggestedQuestionClick text_failing_world
      (handleStartAdventure sample_world initial_app (Some sample_file) ''Why?'' sample_context)
      ''Can I jump?'') = Some sample_story
   \<and> storyData (handleSuggestedQuestionClick text_failing_world
      (handleStartAdventure sample_world initial_app (Some sample_file) ''Why?'' sample_context)
      ''Can I jump?'') \<noteq> None"
  by (simp add: handleSuggestedQuestionClick_def handleStartAdventure_def
      processStoryGeneration_text_failed [OF generateStory_text_failing]
      processStoryGeneration_fulfilled [OF generateStory_sample reads_sample_story(2,3)] step_fields)

section \<open>A reset in the middle of a turn\<close>

text \<open>
  C5, as the code has it. No step of a turn looks at which turn it belongs to. A text
  result that arrives after a reset is applied to the reset state as to any other: a
  story is stored, its concept becomes the only entry of the history and the state is
  \<open>GENERATING_MEDIA\<close>; a failure sets the message and the state \<open>ERROR\<close>. Media outcomes
  that arrive after a reset set the URLs of the calls that fulfilled, and the state is
  \<open>PLAYING\<close>, with no story stored when the reset came after the text result. The story is
  one whose educational concept, audio text and image prompt can be read.
\<close>

theorem late_results_are_applied_after_reset:
  assumes "read_educational_concept story = Inr concept"
    and "read_audio_text story = Inr spoken"
    and "read_image_prompt story = Inr prompt"
  shows "appState (text_fulfilled (handleReset st) story) = GENERATING_MEDIA
   \<and> storyData (text_fulfilled (handleReset st) story) = Some story
   \<and> previousTopics (text_fulfilled (handleReset st) story) = [concept]
   \<and> renderFailed (text_fulfilled (handleReset st) story) = renderFailed st
   \<and> appState (text_rejected (handleReset st)) = ERROR
   \<and> errorMsg (text_rejected (handleReset st))
       = Some ''Oops! The magic wand sputtered. Please try again!''
   \<and> appState (media_settled (handleReset st) audioResult imageResult) = PLAYING
   \<and> audioUrl (media_settled (handleReset st) audioResult imageResult)
       = (case audioResult of Inl reason \<Rightarrow> None | Inr url \<Rightarrow> Some url)
   \<and> imageUrl (media_settled (handleReset st) audioResult imageResult)
       = (case imageResult of Inl reason \<Rightarrow> None | Inr url \<Rightarrow> Some url)
   \<and> storyData (media_settled (handleReset st) audioResult imageResult) = None"
  using assms
  by (simp add: step_fields media_arguments_cases slice_last_def split: sum.splits)

theorem late_results_are_applied_after_reset_witness:
  "read_educational_concept (story_about ''tides'') = Inr (JString ''tides'')
   \<and> read_audio_text (story_about ''tides'') = Inr (JString ''Up!'')
   \<and> read_image_prompt (story_about ''tides'') = Inr (JString ''a cat'')
   \<and> previousTopics (text_fulfilled (handleReset
        (handleStartAdventure sample_world initial_app None ''Why?'' sample_context))
        (story_about ''tides'')) = [JString ''tides'']
   \<and> audioUrl (media_settled (handleReset
        (handleStartAdventure sample_world initial_app None ''Why?'' sample_context))
        (Inl CallFailed) (Inr ''data:image/png;base64,AA=='')) = None
   \<and> imageUrl (media_settled (handleReset
        (handleStartAdventure sample_world initial_app None ''Why?'' sample_context))
        (Inl CallFailed) (Inr ''data:image/png;base64,AA=='')) = Some ''data:image/png;base64,AA==''"
  using late_results_are_applied_after_reset [of "story_about ''tides''" "JString ''tides''"
      "JString ''Up!''" "JString ''a cat''"
      "handleStartAdventure sample_world initial_app None ''Why?'' sample_context"
      "Inl CallFailed" "Inr ''data:image/png;base64,AA==''"]
  by (simp add: reads_story_about)

text \<open>
  The claim as stated fails: a reset while the text call of the first turn is pending,
  then the story arrives.
\<close>

theorem late_text_result_after_reset_counterexample:
  "appState (handleReset
      (turn_begin sample_world initial_app (Some sample_file) ''Why?'' sample_context)) = IDLE
   \<and> appState (text_fulfilled (handleReset
      (turn_begin sample_world initial_app (Some sample_file) ''Why?'' sample_context))
      sample_story) = GENERATING_MEDIA
   \<and> storyData (text_fulfilled (handleReset
      (turn_begin sample_world initial_app (Some sample_file) ''Why?'' sample_context))
      sample_story) = Some sample_story
   \<and> appState (media_settled (text_fulfilled (handleReset
      (turn_begin sample_world initial_app (Some sample_file) ''Why?'' sample_context))
      sample_story) (Inr ''blob:wav'') (Inl IllustrationFailed)) = PLAYING
   \<and> audioUrl (media_settled (text_fulfilled (handleReset
      (turn_begin sample_world initial_app (Some sample_file) ''Why?'' sample_context))
      sample_story) (Inr ''blob:wav'') (Inl IllustrationFailed)) = Some ''blob:wav''"
  by (simp add: step_fields media_arguments_cases reads_sample_story)

section \<open>The request\<close>

lemma js_or_cases:
  "js_or None d = d" "js_or (Some []) d = d" "n \<noteq> [] \<Longrightarrow> js_or (Some n) d = n"
  by (simp_all add: js_or_def)

lemma storyRequest_cases:
  "storyRequest w img q ctx topics =
     (case img of
        None \<Rightarrow> Inr [TextPart (textPrompt None q ctx topics)]
      | Some f \<Rightarrow>
          (case readAsDataURL w f of
             None \<Rightarrow> Inl FileReadFailed
           | Some url \<Rightarrow>
               Inr [InlineData (file_type f) (second (split_on CHR '','' url)),
                    TextPart (textPrompt (Some f) q ctx topics)]))"
  by (simp add: storyRequest_def fileToGenerativePart_def split: option.splits)

lemma generateStory_cases:
  "generateStory w img q ctx topics =
     (case img of
        None \<Rightarrow>
          thenE (textModel w [TextPart (textPrompt None q ctx topics)]) (storyFromResponse w)
      | Some f \<Rightarrow>
          (case readAsDataURL w f of
             None \<Rightarrow> Inl FileReadFailed
           | Some url \<Rightarrow>
               thenE (textModel w [InlineData (file_type f) (second (split_on CHR '','' url)),
                                   TextPart (textPrompt (Some f) q ctx topics)])
                 (storyFromResponse w)))"
  by (simp add: generateStory_def storyRequest_cases split: option.splits)

lemma quoted_keys:
  "quoteJSONString ''child_name'' = dq @ ''child_name'' @ dq"
  "quoteJSONString ''character_name'' = dq @ ''character_name'' @ dq"
  "quoteJSONString ''prev_topics'' = dq @ ''prev_topics'' @ dq"
  by code_simp+

lemma JSON_stringify_contextObject:
  "JSON_stringify (contextObject ctx topics) =
     Some (''{'' @ dq @ ''child_name'' @ dq @ '':''
             @ quoteJSONString (js_or (childName ctx) ''Friend'')
           @ '','' @ dq @ ''character_name'' @ dq @ '':''
             @ quoteJSONString (js_or (characterName ctx) [])
           @ '','' @ dq @ ''prev_topics'' @ dq @ '':''
             @ ''['' @ join '','' (map (\<lambda>x. case JSON_stringify x of
                                               None \<Rightarrow> ''null''
                                             | Some s \<Rightarrow> s) topics) @ '']''
           @ ''}'')"
  by (simp add: contextObject_def present_def quoted_keys)

text \<open>
  C7. Whether an image is supplied or not, the text call of \<open>generateStory\<close> receives a
  request that ends in a text part that carries, behind the question, the serialised
  context object, and that object has \<open>child_name\<close> the supplied child name, or \<^verbatim>\<open>Friend\<close>
  when none (absent or empty) is supplied, \<open>character_name\<close> the supplied character name,
  or the empty string, and \<open>prev_topics\<close> the snapshot. With an image that can be read the
  image part comes first; with one that cannot be read no text call is made.
\<close>

theorem request_carries_context_object:
  "contextObject ctx topics =
     JObject
       [(''child_name'',
           JString (case childName ctx of
                      None \<Rightarrow> ''Friend''
                    | Some n \<Rightarrow> if n = [] then ''Friend'' else n)),
        (''character_name'',
           JString (case characterName ctx of None \<Rightarrow> [] | Some n \<Rightarrow> n)),
        (''prev_topics'', JArray topics)]
   \<and> JSON_stringify (contextObject ctx topics) =
       Some (''{'' @ dq @ ''child_name'' @ dq @ '':''
               @ quoteJSONString (case childName ctx of
                                    None \<Rightarrow> ''Friend''
                                  | Some n \<Rightarrow> if n = [] then ''Friend'' else n)
             @ '','' @ dq @ ''character_name'' @ dq @ '':''
               @ quoteJSONString (case characterName ctx of None \<Rightarrow> [] | Some n \<Rightarrow> n)
             @ '','' @ dq @ ''prev_topics'' @ dq @ '':''
               @ ''['' @ join '','' (map (\<lambda>x. case JSON_stringify x of
                                                 None \<Rightarrow> ''null''
                                               | Some s \<Rightarrow> s) topics) @ '']''
             @ ''}'')
   \<and> storyRequest w None q ctx topics
       = Inr [TextPart (''User Question: '' @ q @ [CHR 0x0A] @ ''Context: ''
               @ template (JSON_stringify (contextObject ctx topics))
               @ [CHR 0x0A] @ ''(NOTE: The user did not provide a drawing. Please invent a creative, friendly character suitable for the story's theme and describe them in the visuals.image_prompt.)'')]
   \<and> generateStory w None q ctx topics
       = thenE (textModel w
                  [TextPart (''User Question: '' @ q @ [CHR 0x0A] @ ''Context: ''
                     @ template (JSON_stringify (contextObject ctx topics))
                     @ [CHR 0x0A] @ ''(NOTE: The user did not provide a drawing. Please invent a creative, friendly character suitable for the story's theme and describe them in the visuals.image_prompt.)'')])
           (storyFromResponse w)
   \<and> (storyRequest w (Some f) q ctx topics = Inr parts \<longrightarrow>
        (\<exists>image. parts =
           [image, TextPart (''User Question: '' @ q @ [CHR 0x0A] @ ''Context: ''
               @ template (JSON_stringify (contextObject ctx topics)))]))
   \<and> (readAsDataURL w f = Some url \<longrightarrow>
        generateStory w (Some f) q ctx topics
          = thenE (textModel w
                     [InlineData (file_type f) (second (split_on CHR '','' url)),
                      TextPart (''User Question: '' @ q @ [CHR 0x0A] @ ''Context: ''
                        @ template (JSON_stringify (contextObject ctx topics)))])
              (storyFromResponse w))
   \<and> (readAsDataURL w f = None \<longrightarrow>
        generateStory w (Some f) q ctx topics = Inl FileReadFailed)"
proof -
  have obj: "contextObject ctx topics =
     JObject
       [(''child_name'',
           JString (case childName ctx of
                      None \<Rightarrow> ''Friend''
                    | Some n \<Rightarrow> if n = [] then ''Friend'' else n)),
        (''character_name'',
           JString (case characterName ctx of None \<Rightarrow> [] | Some n \<Rightarrow> n)),
        (''prev_topics'', JArray topics)]"
    by (simp add: contextObject_def js_or_def split: option.splits)
  have serialised: "JSON_stringify (contextObject ctx topics) =
       Some (''{'' @ dq @ ''child_name'' @ dq @ '':''
               @ quoteJSONString (case childName ctx of
                                    None \<Rightarrow> ''Friend''
                                  | Some n \<Rightarrow> if n = [] then ''Friend'' else n)
             @ '','' @ dq @ ''character_name'' @ dq @ '':''
               @ quoteJSONString (case characterName ctx of None \<Rightarrow> [] | Some n \<Rightarrow> n)
             @ '','' @ dq @ ''prev_topics'' @ dq @ '':''
               @ ''['' @ join '','' (map (\<lambda>x. case JSON_stringify x of
                                                 None \<Rightarrow> ''null''
                                               | Some s \<Rightarrow> s) topics) @ '']''
             @ ''}'')"
    unfolding JSON_stringify_contextObject js_or_def by (simp split: option.splits)
  have prompt_none: "textPrompt None q ctx topics
      = ''User Question: '' @ q @ [CHR 0x0A] @ ''Context: ''
          @ template (JSON_stringify (contextObject ctx topics))
          @ [CHR 0x0A] @ ''(NOTE: The user did not provide a drawing. Please invent a creative, friendly character suitable for the story's theme and describe them in the visuals.image_prompt.)''"
    by (simp add: textPrompt_def contextPrompt_def)
  have prompt_some: "textPrompt (Some f) q ctx topics
      = ''User Question: '' @ q @ [CHR 0x0A] @ ''Context: ''
          @ template (JSON_stringify (contextObject ctx topics))"
    by (simp add: textPrompt_def contextPrompt_def)
  have req_none: "storyRequest w None q ctx topics = Inr [TextPart (textPrompt None q ctx topics)]"
    by (simp add: storyRequest_cases)
  have call_none: "generateStory w None q ctx topics
      = thenE (textModel w [TextPart (textPrompt None q ctx topics)]) (storyFromResponse w)"
    by (simp add: generateStory_cases)
  have req_some: "storyRequest w (Some f) q ctx topics = Inr parts \<longrightarrow>
      (\<exists>image. parts = [image, TextPart (textPrompt (Some f) q ctx topics)])"
    by (auto simp add: storyRequest_cases split: option.splits)
  have call_some: "readAsDataURL w f = Some url \<longrightarrow>
      generateStory w (Some f) q ctx topics
        = thenE (textModel w [InlineData (file_type f) (second (split_on CHR '','' url)),
                              TextPart (textPrompt (Some f) q ctx topics)])
            (storyFromResponse w)"
    by (simp add: generateStory_cases)
  have call_unread: "readAsDataURL w f = None \<longrightarrow>
      generateStory w (Some f) q ctx topics = Inl FileReadFailed"
    by (simp add: generateStory_cases)
  show ?thesis
    unfolding prompt_none [symmetric] prompt_some [symmetric]
    using obj serialised req_none call_none req_some call_some call_unread
    by (intro conjI)
qed

lemma storyRequest_sample_file:
  "storyRequest sample_world (Some sample_file) q ctx topics
     = Inr [InlineData ''image/png'' (Some ''AQID''),
            TextPart (textPrompt (Some sample_file) q ctx topics)]"
  by (simp add: storyRequest_cases world_fields sample_file_def second_def)

lemma readAsDataURL_sample:
  "readAsDataURL sample_world sample_file = Some ''data:image/png;base64,AQID''"
  by (simp add: world_fields sample_file_def)

lemma second_sample_url:
  "second (split_on CHR '','' ''data:image/png;base64,AQID'') = Some ''AQID''"
  by (simp add: second_def)

lemma JSON_stringify_sample_context:
  "JSON_stringify (JObject
          [(''child_name'', JString ''Ann''), (''character_name'', JString ''Bo''),
           (''prev_topics'', JArray [JString ''gravity''])])
     = Some (''{'' @ dq @ ''child_name'' @ dq @ '':'' @ dq @ ''Ann'' @ dq @ '','' @
       dq @ ''character_name'' @ dq @ '':'' @ dq @ ''Bo'' @ dq @ '','' @
       dq @ ''prev_topics'' @ dq @ '':['' @ dq @ ''gravity'' @ dq @ '']}'')"
  by code_simp

theorem request_carries_context_object_witness:
  "readAsDataURL sample_world sample_file = Some ''data:image/png;base64,AQID''
   \<and> contextObject sample_context [JString ''gravity'']
     = JObject
          [(''child_name'', JString ''Ann''), (''character_name'', JString ''Bo''),
           (''prev_topics'', JArray [JString ''gravity''])]
   \<and> JSON_stringify (contextObject sample_context [JString ''gravity''])
     = Some (''{'' @ dq @ ''child_name'' @ dq @ '':'' @ dq @ ''Ann'' @ dq @ '','' @
       dq @ ''character_name'' @ dq @ '':'' @ dq @ ''Bo'' @ dq @ '','' @
       dq @ ''prev_topics'' @ dq @ '':['' @ dq @ ''gravity'' @ dq @ '']}'')
   \<and> storyRequest sample_world (Some sample_file) ''Why?'' sample_context [JString ''gravity'']
     = Inr [InlineData ''image/png'' (Some ''AQID''),
            TextPart (''User Question: Why?'' @ [CHR 0x0A] @ ''Context: '' @
              ''{'' @ dq @ ''child_name'' @ dq @ '':'' @ dq @ ''Ann'' @ dq @ '','' @
              dq @ ''character_name'' @ dq @ '':'' @ dq @ ''Bo'' @ dq @ '','' @
              dq @ ''prev_topics'' @ dq @ '':['' @ dq @ ''gravity'' @ dq @ '']}'')]
   \<and> generateStory sample_world (Some sample_file) ''Why?'' sample_context [JString ''gravity'']
     = thenE (textModel sample_world
         [InlineData ''image/png'' (Some ''AQID''),
          TextPart (''User Question: Why?'' @ [CHR 0x0A] @ ''Context: '' @
            ''{'' @ dq @ ''child_name'' @ dq @ '':'' @ dq @ ''Ann'' @ dq @ '','' @
            dq @ ''character_name'' @ dq @ '':'' @ dq @ ''Bo'' @ dq @ '','' @
            dq @ ''prev_topics'' @ dq @ '':['' @ dq @ ''gravity'' @ dq @ '']}'')])
         (storyFromResponse sample_world)"
proof -
  note fact = request_carries_context_object [of sample_context "[JString ''gravity'']"
      sample_world "''Why?''" sample_file
      "[InlineData ''image/png'' (Some ''AQID''),
        TextPart (textPrompt (Some sample_file) ''Why?'' sample_context [JString ''gravity''])]"
      "''data:image/png;base64,AQID''"]
  have url: "readAsDataURL sample_world sample_file = Some ''data:image/png;base64,AQID''"
    by (rule readAsDataURL_sample)
  have req: "storyRequest sample_world (Some sample_file) ''Why?'' sample_context
      [JString ''gravity'']
      = Inr [InlineData ''image/png'' (Some ''AQID''),
             TextPart (textPrompt (Some sample_file) ''Why?'' sample_context [JString ''gravity''])]"
    by (rule storyRequest_sample_file)
  from fact have obj: "contextObject sample_context [JString ''gravity''] = JObject
        [(''child_name'', JString ''Ann''), (''character_name'', JString ''Bo''),
         (''prev_topics'', JArray [JString ''gravity''])]"
    by (simp add: sample_context_def)
  have ser: "JSON_stringify (contextObject sample_context [JString ''gravity''])
     = Some (''{'' @ dq @ ''child_name'' @ dq @ '':'' @ dq @ ''Ann'' @ dq @ '','' @
       dq @ ''character_name'' @ dq @ '':'' @ dq @ ''Bo'' @ dq @ '','' @
       dq @ ''prev_topics'' @ dq @ '':['' @ dq @ ''gravity'' @ dq @ '']}'')"
    unfolding obj by (rule JSON_stringify_sample_context)
  from fact req have "\<exists>image. [InlineData ''image/png'' (Some ''AQID''),
        TextPart (textPrompt (Some sample_file) ''Why?'' sample_context [JString ''gravity''])]
      = [image, TextPart (''User Question: '' @ ''Why?'' @ [CHR 0x0A] @ ''Context: ''
               @ template (JSON_stringify (contextObject sample_context [JString ''gravity''])))]"
    by blast
  then have prompt: "textPrompt (Some sample_file) ''Why?'' sample_context [JString ''gravity'']
      = ''User Question: Why?'' @ [CHR 0x0A] @ ''Context: '' @
          ''{'' @ dq @ ''child_name'' @ dq @ '':'' @ dq @ ''Ann'' @ dq @ '','' @
          dq @ ''character_name'' @ dq @ '':'' @ dq @ ''Bo'' @ dq @ '','' @
          dq @ ''prev_topics'' @ dq @ '':['' @ dq @ ''gravity'' @ dq @ '']}''"
    unfolding ser by (simp add: template_def)
  from fact url have "generateStory sample_world (Some sample_file) ''Why?'' sample_context
        [JString ''gravity'']
      = thenE (textModel sample_world
                 [InlineData (file_type sample_file)
                    (second (split_on CHR '','' ''data:image/png;base64,AQID'')),
                  TextPart (''User Question: '' @ ''Why?'' @ [CHR 0x0A] @ ''Context: ''
                    @ template (JSON_stringify (contextObject sample_context
                        [JString ''gravity''])))])
          (storyFromResponse sample_world)"
    by blast
  then have call: "generateStory sample_world (Some sample_file) ''Why?'' sample_context
        [JString ''gravity'']
      = thenE (textModel sample_world
         [InlineData ''image/png'' (Some ''AQID''),
          TextPart (''User Question: Why?'' @ [CHR 0x0A] @ ''Context: '' @
            ''{'' @ dq @ ''child_name'' @ dq @ '':'' @ dq @ ''Ann'' @ dq @ '','' @
            dq @ ''character_name'' @ dq @ '':'' @ dq @ ''Bo'' @ dq @ '','' @
            dq @ ''prev_topics'' @ dq @ '':['' @ dq @ ''gravity'' @ dq @ '']}'')])
         (storyFromResponse sample_world)"
    unfolding ser second_sample_url by (simp add: template_def sample_file_def)
  from url obj ser req [unfolded prompt] call show ?thesis
    by (intro conjI)
qed

text \<open>
  C10. An empty child name and an absent one build the same context object, with
  \<open>child_name\<close> \<^verbatim>\<open>Friend\<close>, hence the same request and the same text call.
\<close>

theorem empty_child_name_is_absent:
  "contextObject (ctx\<lparr>childName := Some []\<rparr>) topics
     = JObject
         [(''child_name'', JString ''Friend''),
          (''character_name'', JString (case characterName ctx of None \<Rightarrow> [] | Some n \<Rightarrow> n)),
          (''prev_topics'', JArray topics)]
   \<and> contextObject (ctx\<lparr>childName := Some []\<rparr>) topics
     = contextObject (ctx\<lparr>childName := None\<rparr>) topics
   \<and> storyRequest w img q (ctx\<lparr>childName := Some []\<rparr>) topics
     = storyRequest w img q (ctx\<lparr>childName := None\<rparr>) topics
   \<and> generateStory w img q (ctx\<lparr>childName := Some []\<rparr>) topics
     = generateStory w img q (ctx\<lparr>childName := None\<rparr>) topics"
proof -
  have obj: "contextObject (ctx\<lparr>childName := Some []\<rparr>) topics
      = contextObject (ctx\<lparr>childName := None\<rparr>) topics"
    by (simp add: contextObject_def js_or_def)
  then have prompt: "textPrompt img' q (ctx\<lparr>childName := Some []\<rparr>) topics
      = textPrompt img' q (ctx\<lparr>childName := None\<rparr>) topics" for img'
    by (simp add: textPrompt_def contextPrompt_def)
  have req: "storyRequest w img q (ctx\<lparr>childName := Some []\<rparr>) topics
      = storyRequest w img q (ctx\<lparr>childName := None\<rparr>) topics"
    by (simp add: storyRequest_cases prompt split: option.splits)
  then have "generateStory w img q (ctx\<lparr>childName := Some []\<rparr>) topics
      = generateStory w img q (ctx\<lparr>childName := None\<rparr>) topics"
    by (simp add: generateStory_def)
  with obj req show ?thesis
    by (simp add: contextObject_def js_or_def split: option.splits)
qed

section \<open>Follow-up questions\<close>

lemma processStoryGeneration_keeps_inputs:
  "currentFile (processStoryGeneration w st img q ctx) = currentFile st"
  "currentContext (processStoryGeneration w st img q ctx) = currentContext st"
  by (simp_all add: processStoryGeneration_def Let_def step_fields split: sum.splits prod.splits)

lemma issued_processStoryGeneration:
  "issued (processStoryGeneration w st img q ctx) =
     issued st
     @ (case storyRequest w img q ctx (previousTopics st) of
          Inl e \<Rightarrow> [] | Inr parts \<Rightarrow> [TextRequest parts])
     @ (case generateStory w img q ctx (previousTopics st) of
          Inl e \<Rightarrow> []
        | Inr story \<Rightarrow> media_requests story)"
  by (simp add: processStoryGeneration_def Let_def step_fields split: sum.splits prod.splits)

lemma outcome_processStoryGeneration:
  "storyData (processStoryGeneration w st img q ctx) =
     (case generateStory w img q ctx (previousTopics st) of
        Inl e \<Rightarrow> storyData st
      | Inr story \<Rightarrow> Some story)"
  "appState (processStoryGeneration w st img q ctx) =
     (case generateStory w img q ctx (previousTopics st) of
        Inl e \<Rightarrow> ERROR
      | Inr story \<Rightarrow> PLAYING)"
  by (simp_all add: processStoryGeneration_def Let_def step_fields split: sum.splits prod.splits)

text \<open>
  C8. After a turn submitted with image \<open>img1\<close> and context \<open>ctx1\<close>, successful or not, the
  state retains both, and a follow-up question \<open>q2\<close> runs the turn
  \<open>processStoryGeneration\<close> with \<open>img1\<close>, \<open>q2\<close> and \<open>ctx1\<close>; the caller passes the question
  only. The requests the follow-up sends start with the text request built from \<open>img1\<close>,
  \<open>q2\<close>, \<open>ctx1\<close> and the current topic history, if that request can be built at all: when
  the image can be read, it is the image part of \<open>img1\<close> and the prompt for \<open>q2\<close> and \<open>ctx1\<close>.
  That request is what the text call of the follow-up receives: \<open>generateStory\<close> hands the
  image part of \<open>img1\<close> and the text part with \<open>q2\<close> and the serialised context object of
  \<open>ctx1\<close> and the current topic history to the text model, and the story the follow-up
  stores and the state it ends in are those of the answer to that call.
\<close>

theorem follow_up_reuses_image_and_context:
  "currentFile (handleStartAdventure w1 st0 (Some img1) q1 ctx1) = Some img1
   \<and> currentContext (handleStartAdventure w1 st0 (Some img1) q1 ctx1) = ctx1
   \<and> handleSuggestedQuestionClick w2 (handleStartAdventure w1 st0 (Some img1) q1 ctx1) q2
     = processStoryGeneration w2 (handleStartAdventure w1 st0 (Some img1) q1 ctx1)
         (Some img1) q2 ctx1
   \<and> prefix
        (issued (handleStartAdventure w1 st0 (Some img1) q1 ctx1)
         @ (case storyRequest w2 (Some img1) q2 ctx1
                  (previousTopics (handleStartAdventure w1 st0 (Some img1) q1 ctx1)) of
              Inl e \<Rightarrow> []
            | Inr parts \<Rightarrow> [TextRequest parts]))
        (issued (handleSuggestedQuestionClick w2
           (handleStartAdventure w1 st0 (Some img1) q1 ctx1) q2))
   \<and> (readAsDataURL w2 img1 = Some url \<longrightarrow>
        storyRequest w2 (Some img1) q2 ctx1
          (previousTopics (handleStartAdventure w1 st0 (Some img1) q1 ctx1))
        = Inr [InlineData (file_type img1) (second (split_on CHR '','' url)),
               TextPart (textPrompt (Some img1) q2 ctx1
                 (previousTopics (handleStartAdventure w1 st0 (Some img1) q1 ctx1)))])
   \<and> turn_story (handleStartAdventure w1 st0 (Some img1) q1 ctx1) (FollowUp w2 q2)
     = generateStory w2 (Some img1) q2 ctx1
         (previousTopics (handleStartAdventure w1 st0 (Some img1) q1 ctx1))
   \<and> (readAsDataURL w2 img1 = Some url \<longrightarrow>
        generateStory w2 (Some img1) q2 ctx1
          (previousTopics (handleStartAdventure w1 st0 (Some img1) q1 ctx1))
        = thenE (textModel w2
                   [InlineData (file_type img1) (second (split_on CHR '','' url)),
                    TextPart (''User Question: '' @ q2 @ [CHR 0x0A] @ ''Context: ''
                      @ template (JSON_stringify (contextObject ctx1
                          (previousTopics (handleStartAdventure w1 st0 (Some img1) q1 ctx1)))))])
            (storyFromResponse w2))
   \<and> storyData (handleSuggestedQuestionClick w2
        (handleStartAdventure w1 st0 (Some img1) q1 ctx1) q2)
     = (case generateStory w2 (Some img1) q2 ctx1
               (previousTopics (handleStartAdventure w1 st0 (Some img1) q1 ctx1)) of
          Inl e \<Rightarrow> storyData (handleStartAdventure w1 st0 (Some img1) q1 ctx1)
        | Inr story \<Rightarrow> Some story)
   \<and> appState (handleSuggestedQuestionClick w2
        (handleStartAdventure w1 st0 (Some img1) q1 ctx1) q2)
     = (case generateStory w2 (Some img1) q2 ctx1
               (previousTopics (handleStartAdventure w1 st0 (Some img1) q1 ctx1)) of
          Inl e \<Rightarrow> ERROR
        | Inr story \<Rightarrow> PLAYING)"
proof -
  let ?st1 = "handleStartAdventure w1 st0 (Some img1) q1 ctx1"
  have kept: "currentFile ?st1 = Some img1" "currentContext ?st1 = ctx1"
    by (simp_all add: handleStartAdventure_def processStoryGeneration_keeps_inputs)
  then have same: "handleSuggestedQuestionClick w2 ?st1 q2
      = processStoryGeneration w2 ?st1 (Some img1) q2 ctx1"
    by (simp add: handleSuggestedQuestionClick_def)
  have sent: "prefix
        (issued ?st1
         @ (case storyRequest w2 (Some img1) q2 ctx1 (previousTopics ?st1) of
              Inl e \<Rightarrow> []
            | Inr parts \<Rightarrow> [TextRequest parts]))
        (issued (handleSuggestedQuestionClick w2 ?st1 q2))"
    unfolding same issued_processStoryGeneration
    by (simp only: append_assoc [symmetric] prefixI)
  have built: "readAsDataURL w2 img1 = Some url \<longrightarrow>
      storyRequest w2 (Some img1) q2 ctx1 (previousTopics ?st1)
        = Inr [InlineData (file_type img1) (second (split_on CHR '','' url)),
               TextPart (textPrompt (Some img1) q2 ctx1 (previousTopics ?st1))]"
    by (simp add: storyRequest_cases)
  have asked: "turn_story ?st1 (FollowUp w2 q2)
      = generateStory w2 (Some img1) q2 ctx1 (previousTopics ?st1)"
    by (simp add: kept)
  have received: "readAsDataURL w2 img1 = Some url \<longrightarrow>
      generateStory w2 (Some img1) q2 ctx1 (previousTopics ?st1)
        = thenE (textModel w2
                   [InlineData (file_type img1) (second (split_on CHR '','' url)),
                    TextPart (''User Question: '' @ q2 @ [CHR 0x0A] @ ''Context: ''
                      @ template (JSON_stringify (contextObject ctx1 (previousTopics ?st1))))])
            (storyFromResponse w2)"
    by (simp add: generateStory_cases textPrompt_def contextPrompt_def)
  have stored: "storyData (handleSuggestedQuestionClick w2 ?st1 q2)
     = (case generateStory w2 (Some img1) q2 ctx1 (previousTopics ?st1) of
          Inl e \<Rightarrow> storyData ?st1
        | Inr story \<Rightarrow> Some story)"
    unfolding same by (rule outcome_processStoryGeneration)
  have ends: "appState (handleSuggestedQuestionClick w2 ?st1 q2)
     = (case generateStory w2 (Some img1) q2 ctx1 (previousTopics ?st1) of
          Inl e \<Rightarrow> ERROR
        | Inr story \<Rightarrow> PLAYING)"
    unfolding same by (rule outcome_processStoryGeneration)
  from kept same sent built asked received stored ends show ?thesis
    by (intro conjI)
qed

lemma previousTopics_first_turn:
  "previousTopics (handleStartAdventure sample_world initial_app img q ctx) = [JString ''gravity'']"
  by (simp add: handleStartAdventure_def previousTopics_processStoryGeneration
      generateStory_sample initial_app_def slice_last_def thenE_def reads_sample_story)

lemma media_requests_sample:
  "media_requests sample_story = [SpeechRequest (JString ''Up!''), ImageRequest (JString ''a cat'')]"
  by (simp add: media_requests_def reads_sample_story)

lemma issued_first_turn:
  "issued (handleStartAdventure sample_world initial_app (Some sample_file) q ctx)
     = [TextRequest [InlineData ''image/png'' (Some ''AQID''),
                     TextPart (textPrompt (Some sample_file) q ctx [])],
        SpeechRequest (JString ''Up!''), ImageRequest (JString ''a cat'')]"
  by (simp add: handleStartAdventure_def issued_processStoryGeneration generateStory_sample
      storyRequest_sample_file initial_app_def media_requests_sample)

theorem follow_up_reuses_image_and_context_witness:
  "readAsDataURL sample_world sample_file = Some ''data:image/png;base64,AQID''
   \<and> appState (handleStartAdventure sample_world initial_app (Some sample_file) ''Why?''
        sample_context) = PLAYING
   \<and> prefix
        [TextRequest [InlineData ''image/png'' (Some ''AQID''),
                      TextPart (textPrompt (Some sample_file) ''Why?'' sample_context [])],
         SpeechRequest (JString ''Up!''), ImageRequest (JString ''a cat''),
         TextRequest [InlineData ''image/png'' (Some ''AQID''),
                      TextPart (textPrompt (Some sample_file) ''Can I jump?'' sample_context
                        [JString ''gravity''])]]
        (issued (handleSuggestedQuestionClick sample_world
           (handleStartAdventure sample_world initial_app (Some sample_file) ''Why?''
              sample_context)
           ''Can I jump?''))
   \<and> turn_story (handleStartAdventure sample_world initial_app (Some sample_file) ''Why?''
        sample_context) (FollowUp sample_world ''Can I jump?'')
     = thenE (textModel sample_world
         [InlineData ''image/png'' (Some ''AQID''),
          TextPart (''User Question: Can I jump?'' @ [CHR 0x0A] @ ''Context: '' @
            ''{'' @ dq @ ''child_name'' @ dq @ '':'' @ dq @ ''Ann'' @ dq @ '','' @
            dq @ ''character_name'' @ dq @ '':'' @ dq @ ''Bo'' @ dq @ '','' @
            dq @ ''prev_topics'' @ dq @ '':['' @ dq @ ''gravity'' @ dq @ '']}'')])
         (storyFromResponse sample_world)"
proof -
  let ?st1 = "handleStartAdventure sample_world initial_app (Some sample_file) ''Why?''
      sample_context"
  have url: "readAsDataURL sample_world sample_file = Some ''data:image/png;base64,AQID''"
    by (rule readAsDataURL_sample)
  have playing: "appState ?st1 = PLAYING"
    by (simp add: handleStartAdventure_def outcome_processStoryGeneration generateStory_sample)
  note reuse = follow_up_reuses_image_and_context [of sample_world initial_app sample_file
      "''Why?''" sample_context sample_world "''Can I jump?''" "''data:image/png;base64,AQID''"]
  from reuse url have built: "storyRequest sample_world (Some sample_file) ''Can I jump?''
      sample_context (previousTopics ?st1)
    = Inr [InlineData (file_type sample_file)
             (second (split_on CHR '','' ''data:image/png;base64,AQID'')),
           TextPart (textPrompt (Some sample_file) ''Can I jump?'' sample_context
             (previousTopics ?st1))]"
    by blast
  from reuse have "prefix
        (issued ?st1
         @ (case storyRequest sample_world (Some sample_file) ''Can I jump?'' sample_context
                  (previousTopics ?st1) of
              Inl e \<Rightarrow> []
            | Inr parts \<Rightarrow> [TextRequest parts]))
        (issued (handleSuggestedQuestionClick sample_world ?st1 ''Can I jump?''))"
    by blast
  then have "prefix
        (issued ?st1
         @ [TextRequest [InlineData (file_type sample_file)
             (second (split_on CHR '','' ''data:image/png;base64,AQID'')),
           TextPart (textPrompt (Some sample_file) ''Can I jump?'' sample_context
             (previousTopics ?st1))]])
        (issued (handleSuggestedQuestionClick sample_world ?st1 ''Can I jump?''))"
    unfolding built by simp
  then have sent: "prefix
        [TextRequest [InlineData ''image/png'' (Some ''AQID''),
                      TextPart (textPrompt (Some sample_file) ''Why?'' sample_context [])],
         SpeechRequest (JString ''Up!''), ImageRequest (JString ''a cat''),
         TextRequest [InlineData ''image/png'' (Some ''AQID''),
                      TextPart (textPrompt (Some sample_file) ''Can I jump?'' sample_context
                        [JString ''gravity''])]]
        (issued (handleSuggestedQuestionClick sample_world ?st1 ''Can I jump?''))"
    by (simp only: second_sample_url issued_first_turn previousTopics_first_turn)
       (simp add: sample_file_def)
  from reuse have asked: "turn_story ?st1 (FollowUp sample_world ''Can I jump?'')
      = generateStory sample_world (Some sample_file) ''Can I jump?'' sample_context
          (previousTopics ?st1)"
    by blast
  from reuse url have "generateStory sample_world (Some sample_file) ''Can I jump?''
        sample_context (previousTopics ?st1)
      = thenE (textModel sample_world
                 [InlineData (file_type sample_file)
                    (second (split_on CHR '','' ''data:image/png;base64,AQID'')),
                  TextPart (''User Question: '' @ ''Can I jump?'' @ [CHR 0x0A] @ ''Context: ''
                    @ template (JSON_stringify (contextObject sample_context
                        (previousTopics ?st1))))])
          (storyFromResponse sample_world)"
    by blast
  then have "turn_story ?st1 (FollowUp sample_world ''Can I jump?'')
     = thenE (textModel sample_world
         [InlineData ''image/png'' (Some ''AQID''),
          TextPart (''User Question: Can I jump?'' @ [CHR 0x0A] @ ''Context: '' @
            ''{'' @ dq @ ''child_name'' @ dq @ '':'' @ dq @ ''Ann'' @ dq @ '','' @
            dq @ ''character_name'' @ dq @ '':'' @ dq @ ''Bo'' @ dq @ '','' @
            dq @ ''prev_topics'' @ dq @ '':['' @ dq @ ''gravity'' @ dq @ '']}'')])
         (storyFromResponse sample_world)"
    unfolding asked previousTopics_first_turn second_sample_url
    by (simp add: template_def sample_file_def contextObject_def sample_context_def js_or_def
        JSON_stringify_sample_context del: JSON_stringify.simps)
  with url playing sent show ?thesis
    by (intro conjI)
qed

section \<open>Odd-length audio\<close>





end
